theory Spec2Isabelle
  imports Complex_Main "HOL-Library.Word"
begin

section \<open>JavaScript values as the dispatcher sees them\<close>

text \<open>
  The transport receives a request body that has gone through \<open>JSON.parse\<close>, and the upstream
  API answers in JSON, so every value the dispatcher touches is a JSON value, or the result of
  reading a property of one. A string is a list of UTF-16 code units. A number is a double: an
  integer (\<open>Whole\<close>), a finite value that is not an integer (\<open>Frac\<close>, never used for an integer),
  an infinity (a literal beyond the range of a double parses to one) or NaN (which arithmetic
  produces). The two zeros are one value, \<open>Whole 0\<close>: nothing this program does to a number (the
  test of its truth, the conversion to a string, \<open>JSON.stringify\<close>, \<open>Math.min\<close> followed by a
  conversion to a string) tells them apart. An object holds each of its keys once, in the order
  in which JavaScript enumerates them.
\<close>

type_synonym jsstring = "16 word list"

text \<open>A string literal of the program.\<close>

definition lit :: "string \<Rightarrow> jsstring" where
  "lit s = map of_char s"

datatype number = Whole int | Frac rat | PosInf | NegInf | NaN

datatype json =
    JNull
  | JBool bool
  | JNum number
  | JStr jsstring
  | JArr "json list"
  | JObj "(jsstring \<times> json) list"

text \<open>
  Reading a property gives \<open>undefined\<close> when it is absent, and on an array the names
  \<open>filter\<close> and \<open>sort\<close> give the inherited method of \<open>Array.prototype\<close>.
\<close>

datatype jsval = Undefined | Val json | Builtin string

datatype exn = TypeError | URIError | SyntaxError | Error jsstring

text \<open>The first exception of a sequence of evaluations is the one thrown.\<close>

definition bindE :: "exn + 'a \<Rightarrow> ('a \<Rightarrow> exn + 'b) \<Rightarrow> exn + 'b" where
  "bindE m f = (case m of Inl err \<Rightarrow> Inl err | Inr x \<Rightarrow> f x)"

fun sequenceE :: "(exn + 'a) list \<Rightarrow> exn + 'a list" where
  "sequenceE [] = Inr []"
| "sequenceE (m # ms) =
     (case m of
        Inl err \<Rightarrow> Inl err
      | Inr x \<Rightarrow> (case sequenceE ms of Inl err \<Rightarrow> Inl err | Inr xs \<Rightarrow> Inr (x # xs)))"

subsection \<open>Truthiness, and the values that cannot be destructured\<close>

fun truthy :: "jsval \<Rightarrow> bool" where
  "truthy Undefined = False"
| "truthy (Val JNull) = False"
| "truthy (Val (JBool b)) = b"
| "truthy (Val (JNum x)) = (x \<noteq> Whole 0 \<and> x \<noteq> Frac 0 \<and> x \<noteq> NaN)"
| "truthy (Val (JStr s)) = (s \<noteq> [])"
| "truthy (Val (JArr xs)) = True"
| "truthy (Val (JObj kvs)) = True"
| "truthy (Builtin f) = True"

fun nullish :: "jsval \<Rightarrow> bool" where
  "nullish Undefined = True"
| "nullish (Val JNull) = True"
| "nullish v = False"

text \<open>\<open>a || b\<close>\<close>

definition orElse :: "jsval \<Rightarrow> jsval \<Rightarrow> jsval" where
  "orElse a b = (if truthy a then a else b)"

subsection \<open>Property reads\<close>

text \<open>
  \<open>getProp v k\<close> is \<open>v.k\<close> for a \<open>v\<close> that is neither \<open>undefined\<close> nor \<open>null\<close>, exact for the
  property names this program reads (\<open>jsonrpc\<close>, \<open>method\<close>, \<open>params\<close>, \<open>id\<close>, \<open>name\<close>,
  \<open>arguments\<close>, the argument names of the tools, \<open>length\<close> and \<open>level\<close>). On \<open>undefined\<close> and
  \<open>null\<close> the read throws a TypeError, which every caller below writes out.
\<close>

fun getProp :: "jsval \<Rightarrow> string \<Rightarrow> jsval" where
  "getProp (Val (JObj kvs)) k = (case map_of kvs (lit k) of None \<Rightarrow> Undefined | Some v \<Rightarrow> Val v)"
| "getProp (Val (JArr xs)) k =
     (if k = ''length'' then Val (JNum (Whole (int (length xs))))
      else if k = ''filter'' \<or> k = ''sort'' then Builtin k
      else Undefined)"
| "getProp (Val (JStr s)) k =
     (if k = ''length'' then Val (JNum (Whole (int (length s)))) else Undefined)"
| "getProp v k = Undefined"

text \<open>\<open>v[0]\<close>, for a \<open>v\<close> that is neither \<open>undefined\<close> nor \<open>null\<close>.\<close>

fun index0 :: "jsval \<Rightarrow> jsval" where
  "index0 (Val (JArr xs)) = (case xs of [] \<Rightarrow> Undefined | x # rest \<Rightarrow> Val x)"
| "index0 (Val (JStr s)) = (case s of [] \<Rightarrow> Undefined | c # rest \<Rightarrow> Val (JStr [c]))"
| "index0 (Val (JObj kvs)) = (case map_of kvs (lit ''0'') of None \<Rightarrow> Undefined | Some v \<Rightarrow> Val v)"
| "index0 v = Undefined"

subsection \<open>Conversion to a string, as a template literal does it\<close>

fun digits :: "nat \<Rightarrow> string" where
  "digits n = (if n < 10 then [''0123456789'' ! n]
               else digits (n div 10) @ [''0123456789'' ! (n mod 10)])"

declare digits.simps [simp del]

definition showInt :: "int \<Rightarrow> string" where
  "showInt i = (if i < 0 then ''-'' @ digits (nat (- i)) else digits (nat i))"

text \<open>
  \<open>Number.prototype.toString\<close>: an integer of magnitude below \<open>10^21\<close> is written in plain
  digits. The digits of every other finite double (one that is not an integer, or one written
  with an exponent) are the runtime's, a parameter \<open>dbl\<close>.
\<close>

definition showNumber :: "(number \<Rightarrow> jsstring) \<Rightarrow> number \<Rightarrow> jsstring" where
  "showNumber dbl x =
     (case x of
        Whole i \<Rightarrow> if \<bar>i\<bar> < 10 ^ 21 then lit (showInt i) else dbl x
      | Frac r \<Rightarrow> dbl x
      | PosInf \<Rightarrow> lit ''Infinity''
      | NegInf \<Rightarrow> lit ''-Infinity''
      | NaN \<Rightarrow> lit ''NaN'')"

text \<open>\<open>Array.prototype.join\<close>\<close>

fun join :: "jsstring \<Rightarrow> jsstring list \<Rightarrow> jsstring" where
  "join sep [] = []"
| "join sep [x] = x"
| "join sep (x # y # ys) = x @ sep @ join sep (y # ys)"

text \<open>
  The conversion of an object to a primitive calls its \<open>toString\<close>, then its \<open>valueOf\<close>. A
  parsed object that has a key \<open>toString\<close> of its own hides the inherited method behind a value
  that cannot be called, and whatever \<open>valueOf\<close> it has gives no primitive: a TypeError. An array
  joins the conversions of its elements, the empty string standing for \<open>null\<close>.
\<close>

fun jsonToString :: "(number \<Rightarrow> jsstring) \<Rightarrow> json \<Rightarrow> exn + jsstring" where
  "jsonToString dbl JNull = Inr (lit ''null'')"
| "jsonToString dbl (JBool b) = Inr (if b then lit ''true'' else lit ''false'')"
| "jsonToString dbl (JNum x) = Inr (showNumber dbl x)"
| "jsonToString dbl (JStr s) = Inr s"
| "jsonToString dbl (JArr xs) =
     (case sequenceE (map (\<lambda>x. if x = JNull then Inr [] else jsonToString dbl x) xs) of
        Inl err \<Rightarrow> Inl err
      | Inr parts \<Rightarrow> Inr (join (lit '','') parts))"
| "jsonToString dbl (JObj kvs) =
     (if map_of kvs (lit ''toString'') \<noteq> None then Inl TypeError
      else Inr (lit ''[object Object]''))"

fun ToString :: "(number \<Rightarrow> jsstring) \<Rightarrow> jsval \<Rightarrow> exn + jsstring" where
  "ToString dbl Undefined = Inr (lit ''undefined'')"
| "ToString dbl (Val j) = jsonToString dbl j"
| "ToString dbl (Builtin f) = Inr (lit (''function '' @ f @ ''() { [native code] }''))"

subsection \<open>Conversion to a number, and \<open>Math.min\<close>\<close>

text \<open>
  The conversion of a string to a number is the runtime's, a parameter \<open>strToNum\<close>; an object, an
  array and a function are converted to a string first.
\<close>

definition ToNumber ::
  "(jsstring \<Rightarrow> number) \<Rightarrow> (number \<Rightarrow> jsstring) \<Rightarrow> jsval \<Rightarrow> exn + number" where
  "ToNumber strToNum dbl v =
     (case v of
        Undefined \<Rightarrow> Inr NaN
      | Val JNull \<Rightarrow> Inr (Whole 0)
      | Val (JBool b) \<Rightarrow> Inr (Whole (if b then 1 else 0))
      | Val (JNum x) \<Rightarrow> Inr x
      | Val (JStr s) \<Rightarrow> Inr (strToNum s)
      | _ \<Rightarrow> bindE (ToString dbl v) (\<lambda>s. Inr (strToNum s)))"

fun numLess :: "number \<Rightarrow> number \<Rightarrow> bool" where
  "numLess NaN y = False"
| "numLess x NaN = False"
| "numLess NegInf y = (y \<noteq> NegInf)"
| "numLess x NegInf = False"
| "numLess x PosInf = (x \<noteq> PosInf)"
| "numLess PosInf y = False"
| "numLess (Whole i) (Whole j) = (i < j)"
| "numLess (Whole i) (Frac r) = (of_int i < r)"
| "numLess (Frac r) (Whole j) = (r < of_int j)"
| "numLess (Frac r) (Frac q) = (r < q)"

definition Math_min :: "number \<Rightarrow> number \<Rightarrow> number" where
  "Math_min a b = (if a = NaN \<or> b = NaN then NaN else if numLess b a then b else a)"

subsection \<open>\<open>encodeURIComponent\<close>\<close>

text \<open>
  The unreserved characters stay. Any other code unit, with the low surrogate that follows a
  high one, is a code point, written as the bytes of its UTF-8 encoding, each as \<open>%XX\<close>; a
  surrogate without its partner throws a URIError.
\<close>

definition unreserved :: "jsstring" where
  "unreserved =
     lit ''ABCDEFGHIJKLMNOPQRSTUVWXYZabcdefghijklmnopqrstuvwxyz0123456789-_.!~*'()''"

definition pct :: "nat \<Rightarrow> jsstring" where
  "pct b = lit [CHR ''%'', ''0123456789ABCDEF'' ! (b div 16), ''0123456789ABCDEF'' ! (b mod 16)]"

definition utf8 :: "nat \<Rightarrow> nat list" where
  "utf8 cp =
     (if cp < 128 then [cp]
      else if cp < 2048 then [192 + cp div 64, 128 + cp mod 64]
      else if cp < 65536 then [224 + cp div 4096, 128 + cp div 64 mod 64, 128 + cp mod 64]
      else [240 + cp div 262144, 128 + cp div 4096 mod 64, 128 + cp div 64 mod 64,
            128 + cp mod 64])"

definition highSurrogate :: "16 word \<Rightarrow> bool" where
  "highSurrogate c = (55296 \<le> unat c \<and> unat c < 56320)"

definition lowSurrogate :: "16 word \<Rightarrow> bool" where
  "lowSurrogate c = (56320 \<le> unat c \<and> unat c < 57344)"

fun encodeUnits :: "jsstring \<Rightarrow> exn + jsstring" where
  "encodeUnits [] = Inr []"
| "encodeUnits (c # cs) =
     (if c \<in> set unreserved then bindE (encodeUnits cs) (\<lambda>r. Inr (c # r))
      else if lowSurrogate c then Inl URIError
      else if highSurrogate c
      then (case cs of
              [] \<Rightarrow> Inl URIError
            | d # ds \<Rightarrow>
                if lowSurrogate d
                then bindE (encodeUnits ds)
                       (\<lambda>r. Inr (concat (map pct (utf8 ((unat c - 55296) * 1024
                                                       + (unat d - 56320) + 65536))) @ r))
                else Inl URIError)
      else bindE (encodeUnits cs) (\<lambda>r. Inr (concat (map pct (utf8 (unat c))) @ r)))"

text \<open>\<open>encodeURIComponent(v)\<close> converts its argument to a string first.\<close>

definition encodeURIComponent :: "(number \<Rightarrow> jsstring) \<Rightarrow> jsval \<Rightarrow> exn + jsstring" where
  "encodeURIComponent dbl v = bindE (ToString dbl v) encodeUnits"

subsection \<open>\<open>JSON.stringify(value, null, 2)\<close>\<close>

definition hex4 :: "nat \<Rightarrow> jsstring" where
  "hex4 n = lit [''0123456789abcdef'' ! (n div 4096), ''0123456789abcdef'' ! (n div 256 mod 16),
                 ''0123456789abcdef'' ! (n div 16 mod 16), ''0123456789abcdef'' ! (n mod 16)]"

definition escapeUnit :: "16 word \<Rightarrow> jsstring" where
  "escapeUnit c =
     (if c = of_char (CHR 0x22) then lit [CHR 0x5C, CHR 0x22]
      else if c = of_char (CHR 0x5C) then lit [CHR 0x5C, CHR 0x5C]
      else if c = of_char (CHR 0x08) then lit [CHR 0x5C, CHR ''b'']
      else if c = of_char (CHR 0x0C) then lit [CHR 0x5C, CHR ''f'']
      else if c = of_char (CHR 0x0A) then lit [CHR 0x5C, CHR ''n'']
      else if c = of_char (CHR 0x0D) then lit [CHR 0x5C, CHR ''r'']
      else if c = of_char (CHR 0x09) then lit [CHR 0x5C, CHR ''t'']
      else if unat c < 32 then lit [CHR 0x5C, CHR ''u''] @ hex4 (unat c)
      else [c])"

text \<open>A surrogate without its partner is written as \<open>\uXXXX\<close>; a pair stays.\<close>

fun escapeUnits :: "jsstring \<Rightarrow> jsstring" where
  "escapeUnits [] = []"
| "escapeUnits [c] =
     (if highSurrogate c \<or> lowSurrogate c then lit [CHR 0x5C, CHR ''u''] @ hex4 (unat c)
      else escapeUnit c)"
| "escapeUnits (c # d # ds) =
     (if highSurrogate c \<and> lowSurrogate d then c # d # escapeUnits ds
      else if highSurrogate c \<or> lowSurrogate c
      then lit [CHR 0x5C, CHR ''u''] @ hex4 (unat c) @ escapeUnits (d # ds)
      else escapeUnit c @ escapeUnits (d # ds))"

definition quote :: "jsstring \<Rightarrow> jsstring" where
  "quote s = lit [CHR 0x22] @ escapeUnits s @ lit [CHR 0x22]"

definition pad :: "nat \<Rightarrow> jsstring" where
  "pad n = lit (replicate n (CHR '' ''))"

definition newline :: jsstring where
  "newline = lit [CHR 0x0A]"

text \<open>A number that is not finite is written \<open>null\<close>.\<close>

definition stringifyNumber :: "(number \<Rightarrow> jsstring) \<Rightarrow> number \<Rightarrow> jsstring" where
  "stringifyNumber dbl x =
     (if x = PosInf \<or> x = NegInf \<or> x = NaN then lit ''null'' else showNumber dbl x)"

fun stringifyAt :: "(number \<Rightarrow> jsstring) \<Rightarrow> nat \<Rightarrow> json \<Rightarrow> jsstring" where
  "stringifyAt dbl ind JNull = lit ''null''"
| "stringifyAt dbl ind (JBool b) = (if b then lit ''true'' else lit ''false'')"
| "stringifyAt dbl ind (JNum x) = stringifyNumber dbl x"
| "stringifyAt dbl ind (JStr s) = quote s"
| "stringifyAt dbl ind (JArr xs) =
     (if xs = [] then lit ''[]''
      else lit ''['' @ newline @ pad (ind + 2)
           @ join (lit '','' @ newline @ pad (ind + 2)) (map (stringifyAt dbl (ind + 2)) xs)
           @ newline @ pad ind @ lit '']'')"
| "stringifyAt dbl ind (JObj kvs) =
     (if kvs = [] then lit ''{}''
      else lit ''{'' @ newline @ pad (ind + 2)
           @ join (lit '','' @ newline @ pad (ind + 2))
               (map (\<lambda>(k, v). quote k @ lit '': '' @ stringifyAt dbl (ind + 2) v) kvs)
           @ newline @ pad ind @ lit ''}'')"

definition JSON_stringify :: "(number \<Rightarrow> jsstring) \<Rightarrow> json \<Rightarrow> jsstring" where
  "JSON_stringify dbl v = stringifyAt dbl 0 v"

section \<open>The outside world: the two endpoints, the clock, the calls made so far\<close>

record 'a response =
  res_status :: int
  res_body_text :: jsstring
  res_json :: "'a option"
  res_elapsed :: nat

text \<open>\<open>res.ok\<close>: the status is in the range 200 to 299.\<close>

definition res_ok :: "'a response \<Rightarrow> bool" where
  "res_ok r = (200 \<le> res_status r \<and> res_status r < 300)"

text \<open>
  An outbound call is the POST to the token endpoint, or a GET with its URL and its
  \<open>Authorization\<close> header.
\<close>

datatype call = FetchPost jsstring | FetchGet jsstring jsstring

text \<open>
  Each endpoint answers as it likes, given the calls made before; \<open>res_json\<close> is \<open>None\<close> when the
  body is not JSON, so that \<open>res.json()\<close> rejects. The body of the token endpoint has the type
  the source casts it to: \<open>access_token\<close>, a string, and \<open>expires_in\<close>, a number of seconds.
  The runtime's two conversions between strings and numbers come with the world.
\<close>

record env =
  token_endpoint :: "call list \<Rightarrow> (jsstring \<times> int) response"
  api_endpoint :: "call list \<Rightarrow> jsstring \<Rightarrow> jsstring \<Rightarrow> json response"
  StringToNumber :: "jsstring \<Rightarrow> number"
  Number_toString :: "number \<Rightarrow> jsstring"

text \<open>
  The state of the process: the token cache, the outbound calls made so far, the clock in
  seconds, and what \<open>console.error\<close> has received.
\<close>

record state =
  tokenCache :: "string \<rightharpoonup> jsstring \<times> int"
  calls :: "call list"
  now :: int
  console :: "exn list"

definition API_BASE :: jsstring where
  "API_BASE = lit ''https://api.intra.42.fr''"

section \<open>The token cache\<close>

text \<open>
  Modelled from the spec: \<open>NodeCache\<close>, the cache class of the package \<open>node-cache\<close>, which the
  source imports and whose code is not part of it. The spec's data model: a cached token is a
  value with its expiry \<open>expiresAt\<close>; a token is only served if \<open>now < expiresAt\<close>; a token set
  with a time to live is stored with \<open>expiresAt = now + ttl\<close>.
\<close>

definition NodeCache_get ::
  "(string \<rightharpoonup> jsstring \<times> int) \<Rightarrow> int \<Rightarrow> string \<Rightarrow> jsstring option" where
  "NodeCache_get cache t key =
     (case cache key of
        None \<Rightarrow> None
      | Some (v, expiresAt) \<Rightarrow> if t < expiresAt then Some v else None)"

text \<open>
  Modelled from the spec: \<open>NodeCache.set(key, value, ttl)\<close>, absent like \<open>get\<close>; the spec's
  token cache stores a new token with \<open>expiresAt = now + ttl\<close>, the source passing
  \<open>expires_in - 60\<close> as \<open>ttl\<close>.
\<close>

definition NodeCache_set ::
  "(string \<rightharpoonup> jsstring \<times> int) \<Rightarrow> int \<Rightarrow> string \<Rightarrow> jsstring \<Rightarrow> int
     \<Rightarrow> (string \<rightharpoonup> jsstring \<times> int)" where
  "NodeCache_set cache t key v ttl = cache(key \<mapsto> (v, t + ttl))"

text \<open>
  \<open>getAccessToken\<close>: a cached token that is truthy (a non-empty string) is returned as it is.
  Otherwise (\<open>requestToken\<close>, the rest of the function) one POST goes to the token endpoint, and
  on a 2xx answer the token is stored for \<open>expires_in - 60\<close> seconds from the moment the answer
  has arrived.
\<close>

definition requestToken :: "env \<Rightarrow> state \<Rightarrow> (exn + jsstring) \<times> state" where
  "requestToken e s =
     (let res = token_endpoint e (calls s);
          s1 = s\<lparr>calls := calls s @ [FetchPost (API_BASE @ lit ''/oauth/token'')],
                 now := now s + int (res_elapsed res)\<rparr>
      in if \<not> res_ok res
         then (Inl (Error (lit ''42 API oauth failure: '' @ lit (showInt (res_status res))
                           @ lit '' '' @ res_body_text res)), s1)
         else (case res_json res of
                 None \<Rightarrow> (Inl SyntaxError, s1)
               | Some (access_token, expires_in) \<Rightarrow>
                   (Inr access_token,
                    s1\<lparr>tokenCache := NodeCache_set (tokenCache s1) (now s1)
                                       ''access_token'' access_token (expires_in - 60)\<rparr>)))"

definition getAccessToken :: "env \<Rightarrow> state \<Rightarrow> (exn + jsstring) \<times> state" where
  "getAccessToken e s =
     (case NodeCache_get (tokenCache s) (now s) ''access_token'' of
        Some (c # cs) \<Rightarrow> (Inr (c # cs), s)
      | _ \<Rightarrow> requestToken e s)"

section \<open>The API client\<close>

definition apiRequest :: "env \<Rightarrow> state \<Rightarrow> jsstring \<Rightarrow> (exn + json) \<times> state" where
  "apiRequest e s path =
     (case getAccessToken e s of
        (Inl err, s1) \<Rightarrow> (Inl err, s1)
      | (Inr token, s1) \<Rightarrow>
        (let res = api_endpoint e (calls s1) (API_BASE @ path) (lit ''Bearer '' @ token);
             s2 = s1\<lparr>calls := calls s1 @ [FetchGet (API_BASE @ path) (lit ''Bearer '' @ token)],
                     now := now s1 + int (res_elapsed res)\<rparr>
         in if \<not> res_ok res
            then (Inl (Error (lit ''42 API error: '' @ lit (showInt (res_status res)) @ lit '' ''
                              @ res_body_text res)), s2)
            else (case res_json res of
                    None \<Rightarrow> (Inl SyntaxError, s2)
                  | Some v \<Rightarrow> (Inr v, s2))))"

section \<open>The manual dispatcher: \<open>SimpleHttpMcpTransport.handleRequest\<close>\<close>

text \<open>
  A response is the object literal the source returns: its fields in order, the \<open>id\<close> field
  holding whatever the request's \<open>id\<close> was, \<open>undefined\<close> included.
\<close>

type_synonym jsobject = "(string \<times> jsval) list"

definition error_response :: "int \<Rightarrow> string \<Rightarrow> jsval \<Rightarrow> jsobject" where
  "error_response code message reqid =
     [(''jsonrpc'', Val (JStr (lit ''2.0''))),
      (''error'', Val (JObj [(lit ''code'', JNum (Whole code)),
                             (lit ''message'', JStr (lit message))])),
      (''id'', reqid)]"

definition result_response :: "json \<Rightarrow> jsval \<Rightarrow> jsobject" where
  "result_response result reqid =
     [(''jsonrpc'', Val (JStr (lit ''2.0''))), (''result'', Val result), (''id'', reqid)]"

definition text_content :: "jsstring \<Rightarrow> json" where
  "text_content t =
     JObj [(lit ''content'', JArr [JObj [(lit ''type'', JStr (lit ''text'')), (lit ''text'', JStr t)]])]"

subsection \<open>The fixed payloads\<close>

definition initialize_result :: json where
  "initialize_result =
     JObj [(lit ''protocolVersion'', JStr (lit ''2024-11-05'')),
           (lit ''capabilities'',
              JObj [(lit ''tools'', JObj [(lit ''listChanged'', JBool True)]),
                    (lit ''resources'',
                       JObj [(lit ''subscribe'', JBool True), (lit ''listChanged'', JBool True)])]),
           (lit ''serverInfo'',
              JObj [(lit ''name'', JStr (lit ''42-api-server'')),
                    (lit ''version'', JStr (lit ''0.1.5''))])]"

definition numberProp :: "string \<Rightarrow> json" where
  "numberProp d = JObj [(lit ''type'', JStr (lit ''number'')), (lit ''description'', JStr (lit d))]"

definition numberPropDefault :: "string \<Rightarrow> int \<Rightarrow> json" where
  "numberPropDefault d n =
     JObj [(lit ''type'', JStr (lit ''number'')), (lit ''description'', JStr (lit d)),
           (lit ''default'', JNum (Whole n))]"

definition stringProp :: "string \<Rightarrow> json" where
  "stringProp d = JObj [(lit ''type'', JStr (lit ''string'')), (lit ''description'', JStr (lit d))]"

definition toolEntry :: "string \<Rightarrow> string \<Rightarrow> (string \<times> json) list \<Rightarrow> string list \<Rightarrow> json" where
  "toolEntry name description properties required =
     JObj [(lit ''name'', JStr (lit name)), (lit ''description'', JStr (lit description)),
           (lit ''inputSchema'',
              JObj ([(lit ''type'', JStr (lit ''object'')),
                     (lit ''properties'', JObj (map (\<lambda>(k, v). (lit k, v)) properties))]
                    @ (if required = [] then []
                       else [(lit ''required'', JArr (map (\<lambda>r. JStr (lit r)) required))])))]"

definition tools_list_result :: json where
  \<open>tools_list_result =
     JObj [(lit ''tools'', JArr [
       toolEntry ''searchUsers''
         ''Find 42 users by a case-insensitive login substring (max 5 results)''
         [(''query'', JObj [(lit ''type'', JStr (lit ''string'')),
                            (lit ''description'', JStr (lit ''Search query for user login'')),
                            (lit ''minLength'', JNum (Whole 2)), (lit ''maxLength'', JNum (Whole 30))])]
         [''query''],
       toolEntry ''getCursusLevel''
         ''Returns the level of a user in a specific cursus''
         [(''userId'', numberProp ''42 user ID''),
          (''cursusId'', numberPropDefault ''Cursus ID (default: 21 for 42cursus)'' 21)]
         [''userId''],
       toolEntry ''getUserProjects''
         ''Retrieve all projects for a specific user''
         [(''userId'', numberProp ''42 user ID''),
          (''cursusId'', numberProp ''Filter by cursus ID (optional)'')]
         [''userId''],
       toolEntry ''getCoalition''
         ''Get coalition information for a user''
         [(''userId'', numberProp ''42 user ID'')]
         [''userId''],
       toolEntry ''getCampusUsers''
         ''Retrieve campus-user associations by campusId or userId''
         [(''campusId'', numberProp ''Campus ID''), (''userId'', numberProp ''User ID'')]
         [],
       toolEntry ''getBalances''
         ''Retrieve balances globally or for a specific pool (requires Advanced tutor role)''
         [(''poolId'', numberProp ''Pool ID'')]
         [],
       toolEntry ''getClusters''
         ''Retrieve clusters with optional campusId and/or name filter (requires Basic staff role)''
         [(''campusId'', numberProp ''Campus ID''),
          (''name'', stringProp ''Substring of cluster name''),
          (''pageSize'', numberPropDefault ''Page size (default 30)'' 30)]
         [],
       toolEntry ''getLocations''
         ''Retrieve user locations (seats) with optional campus, host, and activity filters''
         [(''campusId'', numberProp ''Campus ID''),
          (''active'', JObj [(lit ''type'', JStr (lit ''boolean'')),
                             (lit ''description'',
                                JStr (lit ''Filter for active (currently sitting) users only'')),
                             (lit ''default'', JBool True)]),
          (''host'', stringProp ''Specific host/computer name''),
          (''pageSize'', numberPropDefault ''Page size (default 100)'' 100)]
         [],
       toolEntry ''getAttachments''
         ''Retrieve attachments (PDFs, videos, links) with optional project filters''
         [(''projectId'', numberProp ''Project ID to filter attachments''),
          (''projectSessionId'', numberProp ''Project session ID to filter attachments''),
          (''pageSize'', numberPropDefault ''Page size (default 30, max 100)'' 30),
          (''sort'', stringProp ''Sort field (id, created_at, updated_at, etc.)'')]
         [],
       toolEntry ''getAttachment''
         ''Get detailed information about a specific attachment including PDF URLs''
         [(''attachmentId'', numberProp ''Attachment ID''),
          (''projectSessionId'',
             numberProp ''Project session ID (if accessing via project session)'')]
         [''attachmentId''],
       toolEntry ''getProjects''
         ''Retrieve projects with optional cursus or project filters''
         [(''cursusId'', numberProp ''Cursus ID to filter projects''),
          (''projectId'', numberProp ''Parent project ID to filter child projects''),
          (''pageSize'', numberPropDefault ''Page size (default 30, max 100)'' 30),
          (''sort'', stringProp ''Sort field (id, name, created_at, position, etc.)''),
          (''filter'', stringProp (''Filter field and value (e.g., '' @ [CHR 0x22] @ ''exam''
                                   @ [CHR 0x22] @ '' for exam projects)''))]
         [],
       toolEntry ''getProject''
         ''Get detailed information about a specific project''
         [(''projectId'', numberProp ''Project ID'')]
         [''projectId''],
       toolEntry ''getMyProjects''
         ''Get all projects for the current authenticated user''
         [(''cursusId'', numberProp ''Cursus ID to filter projects''),
          (''pageSize'', numberPropDefault ''Page size (default 30, max 100)'' 30),
          (''sort'', stringProp ''Sort field (id, name, created_at, position, etc.)'')]
         []])]\<close>

definition resourceEntry :: "string \<Rightarrow> string \<Rightarrow> string \<Rightarrow> json" where
  "resourceEntry uri name description =
     JObj [(lit ''uri'', JStr (lit uri)), (lit ''name'', JStr (lit name)),
           (lit ''description'', JStr (lit description)),
           (lit ''mimeType'', JStr (lit ''application/json''))]"

definition resources_list_result :: json where
  "resources_list_result =
     JObj [(lit ''resources'', JArr [
       resourceEntry ''42://me'' ''My 42 Profile'' ''Your own user object from 42 API'',
       resourceEntry ''42://campus'' ''42 Campus List'' ''List of all 42 campuses worldwide'',
       resourceEntry ''42://attachments'' ''All Attachments''
         ''List of all attachments (PDFs, videos, links) in the system'',
       resourceEntry ''42://projects'' ''All Projects'' ''List of all projects in the system'',
       resourceEntry ''42://me/projects'' ''My Projects''
         ''List of projects for the current authenticated user''])]"

subsection \<open>The path of each tool\<close>

text \<open>
  Each tool builds the path of its GET from \<open>args\<close>, in the order of the source. The first
  thing each of them does is to read a property of \<open>args\<close>, which throws a TypeError when
  \<open>args\<close> is \<open>undefined\<close> or \<open>null\<close>. A template literal converts each of its values to a
  string (\<open>templ\<close>), which can throw a TypeError, and \<open>encodeURIComponent\<close> (\<open>encoded\<close>) can
  throw a URIError as well.
\<close>

definition templ :: "env \<Rightarrow> jsval \<Rightarrow> exn + jsstring" where
  "templ e v = ToString (Number_toString e) v"

definition encoded :: "env \<Rightarrow> jsval \<Rightarrow> exn + jsstring" where
  "encoded e v = encodeURIComponent (Number_toString e) v"

text \<open>\<open>if (c) list.push(...)\<close>: the element is computed only when \<open>c\<close> holds.\<close>

definition pushIf :: "bool \<Rightarrow> exn + jsstring \<Rightarrow> exn + jsstring list" where
  "pushIf c m = (if c then bindE m (\<lambda>x. Inr [x]) else Inr [])"

definition path_searchUsers :: "env \<Rightarrow> jsval \<Rightarrow> exn + jsstring" where
  "path_searchUsers e args =
     (if nullish args then Inl TypeError
      else bindE (encoded e (getProp args ''query''))
             (\<lambda>query. Inr (lit ''/v2/users?filter[login]='' @ query @ lit ''&page[size]=5'')))"

definition path_getCursusLevel :: "env \<Rightarrow> jsval \<Rightarrow> exn + jsstring" where
  "path_getCursusLevel e args =
     (if nullish args then Inl TypeError
      else bindE (templ e (getProp args ''userId''))
             (\<lambda>userId. bindE (templ e (orElse (getProp args ''cursusId'') (Val (JNum (Whole 21)))))
                (\<lambda>cursusId. Inr (lit ''/v2/users/'' @ userId
                                  @ lit ''/cursus_users?filter[cursus_id]='' @ cursusId))))"

definition path_getUserProjects :: "env \<Rightarrow> jsval \<Rightarrow> exn + jsstring" where
  "path_getUserProjects e args =
     (if nullish args then Inl TypeError
      else bindE (templ e (getProp args ''userId''))
             (\<lambda>userId.
                if truthy (getProp args ''cursusId'')
                then bindE (templ e (getProp args ''cursusId''))
                       (\<lambda>cursusId. Inr (lit ''/v2/users/'' @ userId @ lit ''/projects_users''
                                         @ lit ''?filter[cursus_id]='' @ cursusId))
                else Inr (lit ''/v2/users/'' @ userId @ lit ''/projects_users'')))"

definition path_getCoalition :: "env \<Rightarrow> jsval \<Rightarrow> exn + jsstring" where
  "path_getCoalition e args =
     (if nullish args then Inl TypeError
      else bindE (templ e (getProp args ''userId''))
             (\<lambda>userId. Inr (lit ''/v2/users/'' @ userId @ lit ''/coalitions'')))"

definition path_getCampusUsers :: "env \<Rightarrow> jsval \<Rightarrow> exn + jsstring" where
  "path_getCampusUsers e args =
     (if nullish args then Inl TypeError
      else if truthy (getProp args ''userId'')
      then bindE (templ e (getProp args ''userId''))
             (\<lambda>userId. Inr (lit ''/v2/users/'' @ userId @ lit ''/campus_users''))
      else if truthy (getProp args ''campusId'')
      then bindE (templ e (getProp args ''campusId''))
             (\<lambda>campusId. Inr (lit ''/v2/campus_users'' @ lit ''?filter[campus_id]='' @ campusId))
      else Inr (lit ''/v2/campus_users''))"

definition path_getBalances :: "env \<Rightarrow> jsval \<Rightarrow> exn + jsstring" where
  "path_getBalances e args =
     (if nullish args then Inl TypeError
      else if truthy (getProp args ''poolId'')
      then bindE (templ e (getProp args ''poolId''))
             (\<lambda>poolId. Inr (lit ''/v2/pools/'' @ poolId @ lit ''/balances''))
      else Inr (lit ''/v2/balances''))"

definition path_getClusters :: "env \<Rightarrow> jsval \<Rightarrow> exn + jsstring" where
  "path_getClusters e args =
     (if nullish args then Inl TypeError
      else
        bindE (templ e (orElse (getProp args ''pageSize'') (Val (JNum (Whole 30)))))
          (\<lambda>pageSize.
        bindE (pushIf (truthy (getProp args ''campusId''))
                 (bindE (templ e (getProp args ''campusId''))
                    (\<lambda>campusId. Inr (lit ''filter[campus_id]='' @ campusId))))
          (\<lambda>campusFilter.
        bindE (pushIf (truthy (getProp args ''name''))
                 (bindE (encoded e (getProp args ''name''))
                    (\<lambda>name. Inr (lit ''filter[name]='' @ name))))
          (\<lambda>nameFilter.
             (let clustersUrl = lit ''/v2/clusters?page[size]='' @ pageSize;
                  filters = campusFilter @ nameFilter
              in Inr (if length filters > 0 then clustersUrl @ lit ''&'' @ join (lit ''&'') filters
                      else clustersUrl))))))"

text \<open>
  \<open>getLocations\<close> writes \<open>${args.pageSize || 100}\<close> a second time when \<open>campusId\<close> is truthy; the
  second conversion gives what the first one gave.
\<close>

definition path_getLocations :: "env \<Rightarrow> jsval \<Rightarrow> exn + jsstring" where
  "path_getLocations e args =
     (if nullish args then Inl TypeError
      else
        bindE (templ e (orElse (getProp args ''pageSize'') (Val (JNum (Whole 100)))))
          (\<lambda>pageSize.
        bindE (if truthy (getProp args ''campusId'')
               then bindE (templ e (getProp args ''campusId''))
                      (\<lambda>campusId. Inr (lit ''/v2/campus/'' @ campusId
                                        @ lit ''/locations?page[size]='' @ pageSize))
               else Inr (lit ''/v2/locations?page[size]='' @ pageSize))
          (\<lambda>locationsUrl.
        bindE (pushIf (truthy (getProp args ''host''))
                 (bindE (encoded e (getProp args ''host''))
                    (\<lambda>host. Inr (lit ''filter[host]='' @ host))))
          (\<lambda>hostFilter.
             (let locationFilters =
                    (if getProp args ''active'' \<noteq> Val (JBool False)
                     then [lit ''filter[active]=true''] else [])
                    @ hostFilter
              in Inr (if length locationFilters > 0
                      then locationsUrl @ lit ''&'' @ join (lit ''&'') locationFilters
                      else locationsUrl))))))"

text \<open>\<open>page[size]=${Math.min(args.pageSize || 30, 100)}\<close>\<close>

definition pageSizeParam :: "env \<Rightarrow> jsval \<Rightarrow> exn + jsstring" where
  "pageSizeParam e args =
     bindE (ToNumber (StringToNumber e) (Number_toString e)
              (orElse (getProp args ''pageSize'') (Val (JNum (Whole 30)))))
       (\<lambda>n. Inr (lit ''page[size]='' @ showNumber (Number_toString e) (Math_min n (Whole 100))))"

definition path_getAttachments :: "env \<Rightarrow> jsval \<Rightarrow> exn + jsstring" where
  "path_getAttachments e args =
     (if nullish args then Inl TypeError
      else
        bindE (if truthy (getProp args ''projectSessionId'')
               then bindE (templ e (getProp args ''projectSessionId''))
                      (\<lambda>i. Inr (lit ''/v2/project_sessions/'' @ i @ lit ''/attachments''))
               else if truthy (getProp args ''projectId'')
               then bindE (templ e (getProp args ''projectId''))
                      (\<lambda>i. Inr (lit ''/v2/projects/'' @ i @ lit ''/attachments''))
               else Inr (lit ''/v2/attachments''))
          (\<lambda>attachmentsUrl.
        bindE (pageSizeParam e args)
          (\<lambda>pageSize.
        bindE (pushIf (truthy (getProp args ''sort''))
                 (bindE (encoded e (getProp args ''sort'')) (\<lambda>sort. Inr (lit ''sort='' @ sort))))
          (\<lambda>sortParam.
             (let attachmentParams = [pageSize] @ sortParam
              in Inr (if length attachmentParams > 0
                      then attachmentsUrl @ lit ''?'' @ join (lit ''&'') attachmentParams
                      else attachmentsUrl))))))"

definition path_getAttachment :: "env \<Rightarrow> jsval \<Rightarrow> exn + jsstring" where
  "path_getAttachment e args =
     (if nullish args then Inl TypeError
      else if truthy (getProp args ''projectSessionId'')
      then bindE (templ e (getProp args ''projectSessionId''))
             (\<lambda>projectSessionId. bindE (templ e (getProp args ''attachmentId''))
                (\<lambda>attachmentId. Inr (lit ''/v2/project_sessions/'' @ projectSessionId
                                      @ lit ''/attachments/'' @ attachmentId)))
      else bindE (templ e (getProp args ''attachmentId''))
             (\<lambda>attachmentId. Inr (lit ''/v2/attachments/'' @ attachmentId)))"

definition path_getProjects :: "env \<Rightarrow> jsval \<Rightarrow> exn + jsstring" where
  "path_getProjects e args =
     (if nullish args then Inl TypeError
      else
        bindE (if truthy (getProp args ''cursusId'')
               then bindE (templ e (getProp args ''cursusId''))
                      (\<lambda>i. Inr (lit ''/v2/cursus/'' @ i @ lit ''/projects''))
               else if truthy (getProp args ''projectId'')
               then bindE (templ e (getProp args ''projectId''))
                      (\<lambda>i. Inr (lit ''/v2/projects/'' @ i @ lit ''/projects''))
               else Inr (lit ''/v2/projects''))
          (\<lambda>projectsListUrl.
        bindE (pageSizeParam e args)
          (\<lambda>pageSize.
        bindE (pushIf (truthy (getProp args ''sort''))
                 (bindE (encoded e (getProp args ''sort'')) (\<lambda>sort. Inr (lit ''sort='' @ sort))))
          (\<lambda>sortParam.
        bindE (pushIf (truthy (getProp args ''filter''))
                 (bindE (encoded e (getProp args ''filter''))
                    (\<lambda>f. Inr (lit ''filter['' @ f @ lit '']=true''))))
          (\<lambda>filterParam.
             (let projectParams = [pageSize] @ sortParam @ filterParam
              in Inr (if length projectParams > 0
                      then projectsListUrl @ lit ''?'' @ join (lit ''&'') projectParams
                      else projectsListUrl)))))))"

definition path_getProject :: "env \<Rightarrow> jsval \<Rightarrow> exn + jsstring" where
  "path_getProject e args =
     (if nullish args then Inl TypeError
      else bindE (templ e (getProp args ''projectId''))
             (\<lambda>projectId. Inr (lit ''/v2/projects/'' @ projectId)))"

definition path_getMyProjects :: "env \<Rightarrow> jsval \<Rightarrow> exn + jsstring" where
  "path_getMyProjects e args =
     (if nullish args then Inl TypeError
      else
        bindE (pageSizeParam e args)
          (\<lambda>pageSize.
        bindE (pushIf (truthy (getProp args ''cursusId''))
                 (bindE (templ e (getProp args ''cursusId''))
                    (\<lambda>cursusId. Inr (lit ''cursus_id='' @ cursusId))))
          (\<lambda>cursusParam.
        bindE (pushIf (truthy (getProp args ''sort''))
                 (bindE (encoded e (getProp args ''sort'')) (\<lambda>sort. Inr (lit ''sort='' @ sort))))
          (\<lambda>sortParam.
             (let myProjectParams = [pageSize] @ cursusParam @ sortParam
              in Inr (if length myProjectParams > 0
                      then lit ''/v2/me/projects'' @ lit ''?'' @ join (lit ''&'') myProjectParams
                      else lit ''/v2/me/projects''))))))"

subsection \<open>The cases of \<open>tools/call\<close>\<close>

text \<open>
  Twelve of the thirteen tools await \<open>apiRequest\<close> on their path and return the answer, printed
  by \<open>JSON.stringify(_, null, 2)\<close>, as one text item.
\<close>

definition callTool :: "env \<Rightarrow> state \<Rightarrow> exn + jsstring \<Rightarrow> jsval \<Rightarrow> (exn + jsobject) \<times> state" where
  "callTool e s path reqid =
     (case path of
        Inl err \<Rightarrow> (Inl err, s)
      | Inr p \<Rightarrow>
        (case apiRequest e s p of
           (Inl err, s1) \<Rightarrow> (Inl err, s1)
         | (Inr v, s1) \<Rightarrow>
             (Inr (result_response (text_content (JSON_stringify (Number_toString e) v)) reqid),
              s1)))"

text \<open>
  \<open>getCursusLevel\<close> reads \<open>cursusUsers.length\<close> and \<open>cursusUsers[0].level\<close> of the answer; both
  reads throw a TypeError on \<open>null\<close> and \<open>undefined\<close>, and the template literal converts the
  level and the cursus to strings.
\<close>

definition levelText :: "env \<Rightarrow> jsval \<Rightarrow> json \<Rightarrow> exn + jsstring" where
  "levelText e args cursusUsers =
     (if cursusUsers = JNull then Inl TypeError
      else if truthy (getProp (Val cursusUsers) ''length'')
      then (if nullish (index0 (Val cursusUsers)) then Inl TypeError
            else bindE (templ e (getProp (index0 (Val cursusUsers)) ''level''))
                   (\<lambda>level. bindE (templ e (orElse (getProp args ''cursusId'')
                                                     (Val (JNum (Whole 21)))))
                      (\<lambda>cursusId. Inr (lit ''Level '' @ level @ lit '' in cursus '' @ cursusId))))
      else Inr (lit ''User not enrolled in this cursus.''))"

definition call_getCursusLevel :: "env \<Rightarrow> state \<Rightarrow> jsval \<Rightarrow> jsval \<Rightarrow> (exn + jsobject) \<times> state" where
  "call_getCursusLevel e s args reqid =
     (case path_getCursusLevel e args of
        Inl err \<Rightarrow> (Inl err, s)
      | Inr p \<Rightarrow>
        (case apiRequest e s p of
           (Inl err, s1) \<Rightarrow> (Inl err, s1)
         | (Inr cursusUsers, s1) \<Rightarrow>
           (case levelText e args cursusUsers of
              Inl err \<Rightarrow> (Inl err, s1)
            | Inr t \<Rightarrow> (Inr (result_response (text_content t) reqid), s1))))"

text \<open>The inner \<open>switch (name)\<close>, which compares with \<open>===\<close>.\<close>

definition toolsCall :: "env \<Rightarrow> state \<Rightarrow> jsval \<Rightarrow> jsval \<Rightarrow> jsval \<Rightarrow> (exn + jsobject) \<times> state" where
  "toolsCall e s name args reqid =
     (if name = Val (JStr (lit ''searchUsers'')) then callTool e s (path_searchUsers e args) reqid
      else if name = Val (JStr (lit ''getCursusLevel'')) then call_getCursusLevel e s args reqid
      else if name = Val (JStr (lit ''getUserProjects''))
      then callTool e s (path_getUserProjects e args) reqid
      else if name = Val (JStr (lit ''getCoalition'')) then callTool e s (path_getCoalition e args) reqid
      else if name = Val (JStr (lit ''getCampusUsers''))
      then callTool e s (path_getCampusUsers e args) reqid
      else if name = Val (JStr (lit ''getBalances'')) then callTool e s (path_getBalances e args) reqid
      else if name = Val (JStr (lit ''getClusters'')) then callTool e s (path_getClusters e args) reqid
      else if name = Val (JStr (lit ''getLocations'')) then callTool e s (path_getLocations e args) reqid
      else if name = Val (JStr (lit ''getAttachments''))
      then callTool e s (path_getAttachments e args) reqid
      else if name = Val (JStr (lit ''getAttachment''))
      then callTool e s (path_getAttachment e args) reqid
      else if name = Val (JStr (lit ''getProjects'')) then callTool e s (path_getProjects e args) reqid
      else if name = Val (JStr (lit ''getProject'')) then callTool e s (path_getProject e args) reqid
      else if name = Val (JStr (lit ''getMyProjects''))
      then callTool e s (path_getMyProjects e args) reqid
      else (Inr (error_response (- 32601) ''Method not found'' reqid), s))"

subsection \<open>\<open>handleRequest\<close>\<close>

text \<open>
  The body of the \<open>try\<close>: the \<open>switch (method)\<close>. Under \<open>tools/call\<close> the destructuring of
  \<open>params\<close> throws a TypeError when \<open>params\<close> is \<open>undefined\<close> or \<open>null\<close>.
\<close>

definition dispatch :: "env \<Rightarrow> state \<Rightarrow> jsval \<Rightarrow> jsval \<Rightarrow> jsval \<Rightarrow> (exn + jsobject) \<times> state" where
  "dispatch e s method params reqid =
     (if method = Val (JStr (lit ''initialize''))
      then (Inr (result_response initialize_result reqid), s)
      else if method = Val (JStr (lit ''tools/list''))
      then (Inr (result_response tools_list_result reqid), s)
      else if method = Val (JStr (lit ''tools/call''))
      then (if nullish params then (Inl TypeError, s)
            else toolsCall e s (getProp params ''name'') (getProp params ''arguments'') reqid)
      else if method = Val (JStr (lit ''resources/list''))
      then (Inr (result_response resources_list_result reqid), s)
      else (Inr (error_response (- 32601) ''Method not found'' reqid), s))"

text \<open>
  \<open>handleRequest\<close>: the destructuring of the body is outside the \<open>try\<close>, so on \<open>undefined\<close> and
  \<open>null\<close> the call itself throws; then the check of \<open>jsonrpc\<close>, whose response carries
  \<open>id || null\<close>; then the \<open>try\<close>, whose \<open>catch\<close> logs the error and answers -32603.
\<close>

definition handleRequest :: "env \<Rightarrow> state \<Rightarrow> jsval \<Rightarrow> (exn + jsobject) \<times> state" where
  "handleRequest e s requestBody =
     (if nullish requestBody then (Inl TypeError, s)
      else
        (let jsonrpc = getProp requestBody ''jsonrpc'';
             method = getProp requestBody ''method'';
             params = getProp requestBody ''params'';
             reqid = getProp requestBody ''id''
         in if jsonrpc \<noteq> Val (JStr (lit ''2.0''))
            then (Inr (error_response (- 32600) ''Invalid Request'' (orElse reqid (Val JNull))), s)
            else (case dispatch e s method params reqid of
                    (Inr response, s1) \<Rightarrow> (Inr response, s1)
                  | (Inl err, s1) \<Rightarrow>
                      (Inr (error_response (- 32603) ''Internal error'' reqid),
                       s1\<lparr>console := console s1 @ [err]\<rparr>))))"

section \<open>Reading a response, and the inputs of the worked examples\<close>

definition hasField :: "jsobject \<Rightarrow> string \<Rightarrow> bool" where
  "hasField r k = (map_of r k \<noteq> None)"

definition errorOf :: "jsobject \<Rightarrow> (int \<times> jsstring) option" where
  "errorOf r =
     (case map_of r ''error'' of
        Some (Val (JObj err)) \<Rightarrow>
          (case (map_of err (lit ''code''), map_of err (lit ''message'')) of
             (Some (JNum (Whole code)), Some (JStr message)) \<Rightarrow> Some (code, message)
           | _ \<Rightarrow> None)
      | _ \<Rightarrow> None)"

definition responseOf :: "(exn + jsobject) \<times> state \<Rightarrow> jsobject" where
  "responseOf out = (case fst out of Inl err \<Rightarrow> [] | Inr r \<Rightarrow> r)"

text \<open>The calls a run has added to those made before it.\<close>

definition newCalls :: "state \<Rightarrow> state \<Rightarrow> call list" where
  "newCalls s s1 = drop (length (calls s)) (calls s1)"

definition toolNames :: "string list" where
  "toolNames =
     [''searchUsers'', ''getCursusLevel'', ''getUserProjects'', ''getCoalition'',
      ''getCampusUsers'', ''getBalances'', ''getClusters'', ''getLocations'', ''getAttachments'',
      ''getAttachment'', ''getProjects'', ''getProject'', ''getMyProjects'']"

text \<open>A request body with the four fields of an envelope, and a \<open>tools/call\<close> one.\<close>

definition envelope :: "string \<Rightarrow> string \<Rightarrow> json \<Rightarrow> json \<Rightarrow> jsval" where
  "envelope version method params reqid =
     Val (JObj [(lit ''jsonrpc'', JStr (lit version)), (lit ''method'', JStr (lit method)),
                (lit ''params'', params), (lit ''id'', reqid)])"

definition toolsCallRequest :: "string \<Rightarrow> json \<Rightarrow> json \<Rightarrow> jsval" where
  "toolsCallRequest name args reqid =
     envelope ''2.0'' ''tools/call''
       (JObj [(lit ''name'', JStr (lit name)), (lit ''arguments'', args)]) reqid"

text \<open>
  What the API answers in the examples: one user, with a level that is not an integer, and a
  value of every other kind.
\<close>

definition sampleUsers :: json where
  "sampleUsers =
     JArr [JObj [(lit ''id'', JNum (Whole 7)), (lit ''login'', JStr (lit ''jdoe'')),
                 (lit ''level'', JNum (Frac (421 / 100))), (lit ''staff?'', JBool False),
                 (lit ''image'', JNull), (lit ''titles'', JArr [])]]"

text \<open>
  A world in which both endpoints answer 200, the API with \<open>sampleUsers\<close>, and one in which the
  token endpoint answers 401; in both the runtime writes 4.21 as \<open>4.21\<close>. A process that has just
  started.
\<close>

definition sampleDigits :: "number \<Rightarrow> jsstring" where
  "sampleDigits x = (if x = Frac (421 / 100) then lit ''4.21'' else lit ''1e+21'')"

definition okEnv :: env where
  "okEnv =
     \<lparr>token_endpoint = (\<lambda>h. \<lparr>res_status = 200, res_body_text = [],
                               res_json = Some (lit ''tok'', 7200), res_elapsed = 1\<rparr>),
      api_endpoint = (\<lambda>h url auth.
                        \<lparr>res_status = 200, res_body_text = [], res_json = Some sampleUsers,
                         res_elapsed = 2\<rparr>),
      StringToNumber = (\<lambda>s. NaN),
      Number_toString = sampleDigits\<rparr>"

definition unauthorizedEnv :: env where
  "unauthorizedEnv =
     \<lparr>token_endpoint = (\<lambda>h. \<lparr>res_status = 401, res_body_text = lit ''invalid_client'',
                               res_json = None, res_elapsed = 1\<rparr>),
      api_endpoint = (\<lambda>h url auth.
                        \<lparr>res_status = 500, res_body_text = lit ''down'', res_json = None,
                         res_elapsed = 0\<rparr>),
      StringToNumber = (\<lambda>s. NaN),
      Number_toString = sampleDigits\<rparr>"

definition freshState :: state where
  "freshState = \<lparr>tokenCache = Map.empty, calls = [], now = 1000, console = []\<rparr>"

text \<open>
  Whether \<open>getAccessToken\<close> finds a token it can return; the shape of a JSON-RPC response (an
  \<open>id\<close> field, and either a \<open>result\<close> and no \<open>error\<close>, or no \<open>result\<close> and an \<open>error\<close> with a
  code and a message); the \<open>params\<close> that are neither an object nor \<open>null\<close>; a valid request
  that has no \<open>id\<close>.
\<close>

definition cacheHit :: "state \<Rightarrow> bool" where
  "cacheHit s =
     (case NodeCache_get (tokenCache s) (now s) ''access_token'' of
        Some (c # cs) \<Rightarrow> True
      | _ \<Rightarrow> False)"

definition JsonRpcResponse :: "jsobject \<Rightarrow> bool" where
  "JsonRpcResponse r =
     (hasField r ''id''
      \<and> ((hasField r ''result'' \<and> \<not> hasField r ''error'')
         \<or> (\<not> hasField r ''result'' \<and> errorOf r \<noteq> None)))"

fun primitiveOrArray :: "jsval \<Rightarrow> bool" where
  "primitiveOrArray (Val (JBool b)) = True"
| "primitiveOrArray (Val (JNum n)) = True"
| "primitiveOrArray (Val (JStr s)) = True"
| "primitiveOrArray (Val (JArr xs)) = True"
| "primitiveOrArray v = False"

definition requestWithoutId :: jsval where
  "requestWithoutId =
     Val (JObj [(lit ''jsonrpc'', JStr (lit ''2.0'')), (lit ''method'', JStr (lit ''initialize'')),
                (lit ''params'', JObj [])])"

text \<open>
  A process that holds the token \<open>tok\<close>, good until second 8141, at second 5000.
\<close>

definition cachedState :: state where
  "cachedState =
     \<lparr>tokenCache = [''access_token'' \<mapsto> (lit ''tok'', 8141)],
      calls = [FetchPost (lit ''https://api.intra.42.fr/oauth/token'')], now = 5000, console = []\<rparr>"

text \<open>What \<open>tools/list\<close> advertises: the entries, their names, the input schema of a name.\<close>

definition advertisedTools :: "json list" where
  "advertisedTools = (case getProp (Val tools_list_result) ''tools'' of Val (JArr ts) \<Rightarrow> ts | _ \<Rightarrow> [])"

definition advertisedNames :: "jsval list" where
  "advertisedNames = map (\<lambda>t. getProp (Val t) ''name'') advertisedTools"

definition advertisedSchema :: "string \<Rightarrow> jsval" where
  "advertisedSchema name =
     (case filter (\<lambda>t. getProp (Val t) ''name'' = Val (JStr (lit name))) advertisedTools of
        [] \<Rightarrow> Undefined
      | t # ts \<Rightarrow> getProp (Val t) ''inputSchema'')"

section \<open>String literals\<close>

text \<open>
  A literal of the program is a string of code units below 256, which are no surrogates and
  which \<open>JSON.stringify\<close> writes as they are, but for the quote, the backslash and the control
  characters.
\<close>

lemma lit_eq_iff [simp]: "lit a = lit b \<longleftrightarrow> a = b"
proof -
  have "inj (of_char :: char \<Rightarrow> 16 word)"
  proof (rule injI)
    fix c d :: char
    assume "(of_char c :: 16 word) = of_char d"
    then have "(word_of_nat (of_char c) :: 16 word) = word_of_nat (of_char d)"
      by (simp only: of_nat_of_char)
    then have "take_bit 16 (of_char c :: nat) = take_bit 16 (of_char d :: nat)"
      by (simp add: word_of_nat_eq_iff)
    moreover have "(of_char c :: nat) < 2 ^ 16" "(of_char d :: nat) < 2 ^ 16"
      by (rule less_trans [OF nat_of_char_less_256], simp)+
    ultimately have "(of_char c :: nat) = of_char d"
      by (simp add: take_bit_nat_eq_self)
    then show "c = d" by simp
  qed
  then show ?thesis by (simp add: lit_def inj_map_eq_map)
qed

lemma lit_Nil_iff [simp]: "lit a = [] \<longleftrightarrow> a = []"
  by (simp add: lit_def)

lemma lit_append [simp]: "lit a @ lit b = lit (a @ b)" "lit a @ lit b @ u = lit (a @ b) @ u"
  by (simp_all add: lit_def)

lemma unat_of_char [simp]: "unat (of_char c :: 16 word) = of_char c"
proof -
  have "(of_char c :: nat) < 2 ^ 16"
    by (rule less_trans [OF nat_of_char_less_256], simp)
  moreover have "(of_char c :: 16 word) = word_of_nat (of_char c)"
    by (simp only: of_nat_of_char)
  ultimately show ?thesis
    by (simp add: unat_of_nat take_bit_nat_eq_self del: of_nat_of_char)
qed

lemma of_char_word_eq_iff [simp]: "((of_char c :: 16 word) = of_char d) \<longleftrightarrow> c = d"
  using lit_eq_iff [of "[c]" "[d]"] by (simp add: lit_def)

lemma not_surrogate_of_char [simp]:
  "\<not> highSurrogate (of_char c)" "\<not> lowSurrogate (of_char c)"
proof -
  have "(of_char c :: nat) < 55296"
    by (rule less_trans [OF nat_of_char_less_256]) simp
  then show "\<not> highSurrogate (of_char c)" "\<not> lowSurrogate (of_char c)"
    by (simp_all add: highSurrogate_def lowSurrogate_def)
qed

lemma escapeUnit_plain:
  assumes "32 \<le> (of_char c :: nat)" and "c \<noteq> CHR 0x22" and "c \<noteq> CHR 0x5C"
  shows "escapeUnit (of_char c) = [of_char c]"
proof -
  have "c \<noteq> CHR 0x08" "c \<noteq> CHR 0x0C" "c \<noteq> CHR 0x0A" "c \<noteq> CHR 0x0D" "c \<noteq> CHR 0x09"
    using assms(1) by auto
  with assms show ?thesis
    by (simp add: escapeUnit_def del: of_char_Char)
qed

lemma escapeUnits_plain:
  "list_all (\<lambda>c. 32 \<le> (of_char c :: nat) \<and> c \<noteq> CHR 0x22 \<and> c \<noteq> CHR 0x5C) s \<Longrightarrow>
     escapeUnits (lit s) = lit s"
proof (induction s rule: induct_list012)
  case 1
  then show ?case by (simp add: lit_def)
next
  case (2 x)
  then show ?case by (simp add: lit_def escapeUnit_plain)
next
  case (3 x y zs)
  then have "escapeUnits (lit (y # zs)) = lit (y # zs)" by simp
  with 3 show ?case by (simp add: lit_def escapeUnit_plain)
qed

section \<open>The conversions at work\<close>

text \<open>
  A template literal writes an array as its elements joined by commas, \<open>null\<close> as nothing, and
  throws on an object that has a key \<open>toString\<close> of its own, also inside an array.
\<close>

lemma jsonToString_examples:
  "jsonToString dbl (JArr [JNum (Whole 1), JNull, JArr [JNum (Whole 2), JStr (lit ''x'')]])
     = Inr (lit ''1,,2,x'')"
  "jsonToString dbl (JArr [JObj [(lit ''toString'', JNum (Whole 1))]]) = Inl TypeError"
  "jsonToString dbl (JObj [(lit ''a'', JNull)]) = Inr (lit ''[object Object]'')"
  by (simp_all add: showNumber_def showInt_def digits.simps)

text \<open>
  An integer below \<open>10^21\<close> is written in plain digits; \<open>10^21\<close> itself, and 4.21, are written
  as the runtime writes them.
\<close>

lemma showNumber_examples:
  "showNumber dbl (Whole (- 42)) = lit ''-42''"
  "showNumber dbl (Whole (10 ^ 21)) = dbl (Whole (10 ^ 21))"
  "showNumber sampleDigits (Whole (10 ^ 21)) = lit ''1e+21''"
  "showNumber sampleDigits (Frac (421 / 100)) = lit ''4.21''"
  by (simp_all add: showNumber_def showInt_def digits.simps sampleDigits_def)

text \<open>
  \<open>encodeURIComponent\<close>: \<open>a b&c\<close> becomes \<open>a%20b%26c\<close>; the code unit 233 (e acute) becomes
  \<open>%C3%A9\<close>; the pair D83D DE00 becomes \<open>%F0%9F%98%80\<close>; D83D alone, and DE00 before D83D,
  throw a URIError.
\<close>

lemma unreserved_lit:
  "of_char c \<in> set unreserved
   \<longleftrightarrow> c \<in> set ''ABCDEFGHIJKLMNOPQRSTUVWXYZabcdefghijklmnopqrstuvwxyz0123456789-_.!~*'()''"
  by (simp only: unreserved_def lit_def set_map
      inj_image_mem_iff [OF injI [of of_char, OF iffD1 [OF of_char_word_eq_iff]]])

lemma encodeUnits_examples:
  "encodeUnits (lit ''a b&c'') = Inr (lit ''a%20b%26c'')"
  by (simp add: unreserved_lit lit_def bindE_def utf8_def pct_def del: of_char_Char) simp

lemma encodeUnits_code_points:
  "encodeUnits [233] = Inr (lit ''%C3%A9'')"
  "encodeUnits [55357, 56832] = Inr (lit ''%F0%9F%98%80'')"
  by (simp_all add: unreserved_def lit_def highSurrogate_def lowSurrogate_def utf8_def pct_def
      bindE_def)

lemma encodeUnits_unpaired_surrogate:
  "encodeUnits [55357] = Inl URIError"
  "encodeUnits [56832, 55357] = Inl URIError"
  by (simp_all add: unreserved_def lit_def highSurrogate_def lowSurrogate_def)

text \<open>
  \<open>JSON.stringify\<close> of a string: the quote, the backslash, the line feed and the control
  character 1 are escaped, and D83D alone is written \<open>\ud83d\<close>.
\<close>

lemma quote_examples:
  "quote (lit [CHR ''a'', CHR 0x22, CHR 0x5C, CHR 0x0A, CHR 0x01])
     = lit ([CHR 0x22] @ ''a'' @ [CHR 0x5C, CHR 0x22, CHR 0x5C, CHR 0x5C, CHR 0x5C] @ ''n''
            @ [CHR 0x5C] @ ''u0001'' @ [CHR 0x22])"
  by (simp add: quote_def lit_def escapeUnit_def hex4_def del: of_char_Char) simp

lemma quote_unpaired_surrogate:
  "quote [55357] = lit ([CHR 0x22, CHR 0x5C] @ ''ud83d'' @ [CHR 0x22])"
  by (simp add: quote_def lit_def highSurrogate_def lowSurrogate_def hex4_def)

section \<open>Envelope validation\<close>

lemma handleRequest_invalid:
  assumes "\<not> nullish body" and "getProp body ''jsonrpc'' \<noteq> Val (JStr (lit ''2.0''))"
  shows "handleRequest e s body =
           (Inr (error_response (- 32600) ''Invalid Request''
                   (orElse (getProp body ''id'') (Val JNull))), s)"
  using assms by (simp add: handleRequest_def Let_def)

lemma handleRequest_valid:
  assumes "\<not> nullish body" and "getProp body ''jsonrpc'' = Val (JStr (lit ''2.0''))"
  shows "handleRequest e s body =
           (case dispatch e s (getProp body ''method'') (getProp body ''params'')
                   (getProp body ''id'') of
              (Inr response, s1) \<Rightarrow> (Inr response, s1)
            | (Inl err, s1) \<Rightarrow>
                (Inr (error_response (- 32603) ''Internal error'' (getProp body ''id'')),
                 s1\<lparr>console := console s1 @ [err]\<rparr>))"
  using assms by (simp add: handleRequest_def Let_def)

text \<open>
  C1. A request whose \<open>jsonrpc\<close> is not \<open>"2.0"\<close> is answered with -32600 before anything is
  dispatched, and the answer is to carry the request's id when there is one. The source writes
  \<open>id || null\<close>: for the request \<open>{"jsonrpc":"1.0","method":"initialize","params":{},"id":0}\<close>,
  whose id is the number 0, the answer carries \<open>null\<close> and no call has been made.
\<close>

theorem invalid_request_id_zero_becomes_null:
  "getProp (envelope ''1.0'' ''initialize'' (JObj []) (JNum (Whole 0))) ''id'' = Val (JNum (Whole 0))
   \<and> handleRequest okEnv freshState (envelope ''1.0'' ''initialize'' (JObj []) (JNum (Whole 0)))
       = (Inr (error_response (- 32600) ''Invalid Request'' (Val JNull)), freshState)"
  by (simp add: envelope_def handleRequest_def orElse_def)

section \<open>The shape of every response\<close>

lemma callTool_shape:
  "callTool e s p i = (Inr r, s1) \<Longrightarrow> \<exists>res. r = result_response res i"
  by (auto simp: callTool_def split: sum.splits prod.splits)

lemma call_getCursusLevel_shape:
  "call_getCursusLevel e s a i = (Inr r, s1) \<Longrightarrow> \<exists>res. r = result_response res i"
  by (auto simp: call_getCursusLevel_def split: sum.splits prod.splits)

lemma toolsCall_shape:
  "toolsCall e s n a i = (Inr r, s1) \<Longrightarrow>
     (\<exists>res. r = result_response res i) \<or> r = error_response (- 32601) ''Method not found'' i"
  unfolding toolsCall_def
  by (auto split: if_splits dest: callTool_shape call_getCursusLevel_shape)

lemma dispatch_shape:
  "dispatch e s m p i = (Inr r, s1) \<Longrightarrow>
     (\<exists>res. r = result_response res i) \<or> r = error_response (- 32601) ''Method not found'' i"
  unfolding dispatch_def
  by (auto split: if_splits dest: toolsCall_shape)

lemma handleRequest_shape:
  assumes "\<not> nullish body"
  shows "\<exists>r s1. handleRequest e s body = (Inr r, s1)
           \<and> ((\<exists>res. r = result_response res (getProp body ''id''))
              \<or> r = error_response (- 32601) ''Method not found'' (getProp body ''id'')
              \<or> r = error_response (- 32603) ''Internal error'' (getProp body ''id'')
              \<or> r = error_response (- 32600) ''Invalid Request''
                       (orElse (getProp body ''id'') (Val JNull)))"
proof (cases "getProp body ''jsonrpc'' = Val (JStr (lit ''2.0''))")
  case False
  with assms show ?thesis by (simp add: handleRequest_invalid)
next
  case True
  obtain out s1 where d: "dispatch e s (getProp body ''method'') (getProp body ''params'')
                            (getProp body ''id'') = (out, s1)"
    by (cases "dispatch e s (getProp body ''method'') (getProp body ''params'') (getProp body ''id'')")
  show ?thesis
  proof (cases out)
    case (Inl err)
    with d True assms show ?thesis by (simp add: handleRequest_valid)
  next
    case (Inr r)
    with d have "(\<exists>res. r = result_response res (getProp body ''id''))
                 \<or> r = error_response (- 32601) ''Method not found'' (getProp body ''id'')"
      by (auto dest: dispatch_shape)
    with d Inr True assms show ?thesis by (auto simp: handleRequest_valid)
  qed
qed

lemma handleRequest_valid_shape:
  assumes "\<not> nullish body" and "getProp body ''jsonrpc'' = Val (JStr (lit ''2.0''))"
  shows "\<exists>r s1. handleRequest e s body = (Inr r, s1)
           \<and> ((\<exists>res. r = result_response res (getProp body ''id''))
              \<or> r = error_response (- 32601) ''Method not found'' (getProp body ''id'')
              \<or> r = error_response (- 32603) ''Internal error'' (getProp body ''id''))"
proof -
  obtain out s1 where d: "dispatch e s (getProp body ''method'') (getProp body ''params'')
                            (getProp body ''id'') = (out, s1)"
    by (cases "dispatch e s (getProp body ''method'') (getProp body ''params'') (getProp body ''id'')")
  show ?thesis
  proof (cases out)
    case (Inl err)
    with d assms show ?thesis by (simp add: handleRequest_valid)
  next
    case (Inr r)
    with d have "(\<exists>res. r = result_response res (getProp body ''id''))
                 \<or> r = error_response (- 32601) ''Method not found'' (getProp body ''id'')"
      by (auto dest: dispatch_shape)
    with d Inr assms show ?thesis by (auto simp: handleRequest_valid)
  qed
qed

lemma errorOf_result_response [simp]: "errorOf (result_response res i) = None"
  by (simp add: errorOf_def result_response_def)

lemma errorOf_error_response [simp]: "errorOf (error_response c m i) = Some (c, lit m)"
  by (simp add: errorOf_def error_response_def)

lemma JsonRpcResponse_result [simp]: "JsonRpcResponse (result_response res i)"
  by (simp add: JsonRpcResponse_def hasField_def result_response_def errorOf_def)

lemma JsonRpcResponse_error [simp]: "JsonRpcResponse (error_response c m i)"
  by (simp add: JsonRpcResponse_def hasField_def error_response_def errorOf_def)

text \<open>
  C8. On every request body that can be destructured (anything but \<open>undefined\<close> and \<open>null\<close>, so
  every envelope), \<open>handleRequest\<close> returns a response, and the response has an \<open>id\<close> field and
  exactly one of a \<open>result\<close> field and an \<open>error\<close> field with a code and a message.
\<close>

theorem handleRequest_result_xor_error:
  assumes "\<not> nullish body"
  shows "\<exists>r s1. handleRequest e s body = (Inr r, s1) \<and> JsonRpcResponse r"
  using handleRequest_shape [OF assms, of e s] by auto

text \<open>A \<open>tools/call\<close> with \<open>null\<close> arguments, in a world whose token endpoint answers 401.\<close>

theorem handleRequest_result_xor_error_witness:
  "\<not> nullish (toolsCallRequest ''getCoalition'' JNull (JNum (Whole 3)))
   \<and> (\<exists>r s1. handleRequest unauthorizedEnv freshState (toolsCallRequest ''getCoalition'' JNull (JNum (Whole 3)))
               = (Inr r, s1) \<and> JsonRpcResponse r)"
  using handleRequest_result_xor_error
          [of "toolsCallRequest ''getCoalition'' JNull (JNum (Whole 3))" unauthorizedEnv freshState]
  by (simp add: toolsCallRequest_def envelope_def)

section \<open>The id of a response\<close>

lemma map_of_error_response_id [simp]: "map_of (error_response c m i) ''id'' = Some i"
  by (simp add: error_response_def)

lemma map_of_result_response_id [simp]: "map_of (result_response r i) ''id'' = Some i"
  by (simp add: result_response_def)

lemma handleRequest_valid_id:
  assumes "\<not> nullish body" and "getProp body ''jsonrpc'' = Val (JStr (lit ''2.0''))"
  shows "map_of (responseOf (handleRequest e s body)) ''id'' = Some (getProp body ''id'')"
  using handleRequest_valid_shape [OF assms, of e s]
  by (auto simp: responseOf_def)

text \<open>
  C2, as the code has it. A request whose \<open>jsonrpc\<close> is \<open>"2.0"\<close> gets a response whose \<open>id\<close> is
  exactly what the request's \<open>id\<close> field held, with nothing put in its place: an absent id stays
  \<open>undefined\<close>, and no id is taken for malformed. A request whose \<open>jsonrpc\<close> is not \<open>"2.0"\<close> gets
  its id back when the id is truthy, and \<open>null\<close> when the id is absent or \<open>null\<close>.
\<close>

theorem response_id_echo:
  assumes "\<not> nullish body"
  shows "(getProp body ''jsonrpc'' = Val (JStr (lit ''2.0'')) \<longrightarrow>
            map_of (responseOf (handleRequest e s body)) ''id'' = Some (getProp body ''id''))
       \<and> (getProp body ''jsonrpc'' \<noteq> Val (JStr (lit ''2.0'')) \<and> truthy (getProp body ''id'') \<longrightarrow>
            map_of (responseOf (handleRequest e s body)) ''id'' = Some (getProp body ''id''))
       \<and> (getProp body ''jsonrpc'' \<noteq> Val (JStr (lit ''2.0'')) \<and> nullish (getProp body ''id'') \<longrightarrow>
            map_of (responseOf (handleRequest e s body)) ''id'' = Some (Val JNull))"
proof (intro conjI impI)
  assume "getProp body ''jsonrpc'' = Val (JStr (lit ''2.0''))"
  with assms show "map_of (responseOf (handleRequest e s body)) ''id'' = Some (getProp body ''id'')"
    by (rule handleRequest_valid_id)
next
  assume "getProp body ''jsonrpc'' \<noteq> Val (JStr (lit ''2.0'')) \<and> truthy (getProp body ''id'')"
  with assms show "map_of (responseOf (handleRequest e s body)) ''id'' = Some (getProp body ''id'')"
    by (simp add: handleRequest_invalid responseOf_def orElse_def)
next
  assume a: "getProp body ''jsonrpc'' \<noteq> Val (JStr (lit ''2.0'')) \<and> nullish (getProp body ''id'')"
  with assms show "map_of (responseOf (handleRequest e s body)) ''id'' = Some (Val JNull)"
    by (cases "getProp body ''id''" rule: nullish.cases)
       (auto simp: handleRequest_invalid responseOf_def orElse_def)
qed

text \<open>
  The three cases at work: a valid \<open>tools/call\<close> with id 2, an invalid envelope with id \<open>"a"\<close>, an
  invalid envelope with id \<open>null\<close>.
\<close>

theorem response_id_echo_witness:
  "\<not> nullish (toolsCallRequest ''searchUsers'' (JObj [(lit ''query'', JStr (lit ''jd''))]) (JNum (Whole 2)))
   \<and> map_of (responseOf (handleRequest okEnv freshState
               (toolsCallRequest ''searchUsers'' (JObj [(lit ''query'', JStr (lit ''jd''))]) (JNum (Whole 2))))) ''id''
       = Some (Val (JNum (Whole 2)))
   \<and> truthy (getProp (envelope ''1.0'' ''initialize'' (JObj []) (JStr (lit ''a''))) ''id'')
   \<and> map_of (responseOf (handleRequest okEnv freshState
               (envelope ''1.0'' ''initialize'' (JObj []) (JStr (lit ''a''))))) ''id''
       = Some (Val (JStr (lit ''a'')))
   \<and> nullish (getProp (envelope ''1.0'' ''initialize'' (JObj []) JNull) ''id'')
   \<and> map_of (responseOf (handleRequest okEnv freshState
               (envelope ''1.0'' ''initialize'' (JObj []) JNull))) ''id''
       = Some (Val JNull)"
  using response_id_echo
          [of "toolsCallRequest ''searchUsers'' (JObj [(lit ''query'', JStr (lit ''jd''))]) (JNum (Whole 2))"
              okEnv freshState]
        response_id_echo [of "envelope ''1.0'' ''initialize'' (JObj []) (JStr (lit ''a''))" okEnv freshState]
        response_id_echo [of "envelope ''1.0'' ''initialize'' (JObj []) JNull" okEnv freshState]
  by (simp add: toolsCallRequest_def envelope_def)

text \<open>
  C2 as stated fails: the valid request \<open>{"jsonrpc":"2.0","method":"initialize","params":{}}\<close>
  has no id, and the response's \<open>id\<close> is \<open>undefined\<close>, not \<open>null\<close>.
\<close>

theorem absent_id_is_not_null:
  "getProp requestWithoutId ''id'' = Undefined
   \<and> map_of (responseOf (handleRequest okEnv freshState requestWithoutId)) ''id'' = Some Undefined
   \<and> map_of (responseOf (handleRequest okEnv freshState requestWithoutId)) ''id''
       \<noteq> Some (Val JNull)"
  by (simp add: requestWithoutId_def handleRequest_def dispatch_def responseOf_def)

section \<open>Failure containment\<close>

lemma getAccessToken_miss:
  "\<not> cacheHit s \<Longrightarrow> getAccessToken e s = requestToken e s"
  by (auto simp: cacheHit_def getAccessToken_def split: option.splits list.splits)

lemma getAccessToken_hit:
  "cacheHit s \<Longrightarrow> \<exists>c cs. NodeCache_get (tokenCache s) (now s) ''access_token'' = Some (c # cs)
      \<and> getAccessToken e s = (Inr (c # cs), s)"
  by (auto simp: cacheHit_def getAccessToken_def split: option.splits list.splits)

lemma requestToken_fails:
  "\<not> res_ok (token_endpoint e (calls s)) \<Longrightarrow> \<exists>err s1. requestToken e s = (Inl err, s1)"
  by (simp add: requestToken_def Let_def)

lemma apiRequest_token_fails:
  assumes "\<not> cacheHit s" and "\<not> res_ok (token_endpoint e (calls s))"
  shows "\<exists>err s1. apiRequest e s p = (Inl err, s1)"
proof -
  from assms obtain err s1 where "getAccessToken e s = (Inl err, s1)"
    using requestToken_fails getAccessToken_miss by metis
  then show ?thesis by (simp add: apiRequest_def)
qed

lemma apiRequest_api_fails:
  assumes "\<forall>h url auth. \<not> res_ok (api_endpoint e h url auth)"
  shows "\<exists>err s1. apiRequest e s p = (Inl err, s1)"
proof (cases "getAccessToken e s")
  case (Pair out s1)
  show ?thesis
  proof (cases out)
    case (Inl err)
    with Pair show ?thesis by (simp add: apiRequest_def)
  next
    case (Inr token)
    with Pair assms show ?thesis by (simp add: apiRequest_def Let_def)
  qed
qed

lemma callTool_fails:
  assumes "\<forall>p. \<exists>err s1. apiRequest e s p = (Inl err, s1)"
  shows "\<exists>err s1. callTool e s path i = (Inl err, s1)"
proof (cases path)
  case (Inl err)
  then show ?thesis by (simp add: callTool_def)
next
  case (Inr p)
  from assms obtain err s1 where "apiRequest e s p = (Inl err, s1)" by blast
  with Inr show ?thesis by (simp add: callTool_def)
qed

lemma call_getCursusLevel_fails:
  assumes "\<forall>p. \<exists>err s1. apiRequest e s p = (Inl err, s1)"
  shows "\<exists>err s1. call_getCursusLevel e s args i = (Inl err, s1)"
proof (cases "path_getCursusLevel e args")
  case (Inl err)
  then show ?thesis by (simp add: call_getCursusLevel_def)
next
  case (Inr p)
  from assms obtain err s1 where "apiRequest e s p = (Inl err, s1)" by blast
  with Inr show ?thesis by (simp add: call_getCursusLevel_def)
qed

lemma toolsCall_fails:
  assumes "\<forall>p. \<exists>err s1. apiRequest e s p = (Inl err, s1)" and "n \<in> set toolNames"
  shows "\<exists>err s1. toolsCall e s (Val (JStr (lit n))) args i = (Inl err, s1)"
  using assms(2) callTool_fails [OF assms(1)] call_getCursusLevel_fails [OF assms(1)]
  by (auto simp: toolNames_def toolsCall_def)

lemma toolsCall_nullish_args:
  assumes "nullish args" and "n \<in> set toolNames"
  shows "toolsCall e s (Val (JStr (lit n))) args i = (Inl TypeError, s)"
  using assms
  by (auto simp: toolNames_def toolsCall_def callTool_def call_getCursusLevel_def
      path_searchUsers_def path_getCursusLevel_def path_getUserProjects_def path_getCoalition_def
      path_getCampusUsers_def path_getBalances_def path_getClusters_def path_getLocations_def
      path_getAttachments_def path_getAttachment_def path_getProjects_def path_getProject_def
      path_getMyProjects_def)

lemma getProp_nullish: "nullish v \<Longrightarrow> getProp v k = Undefined"
  by (cases v rule: nullish.cases) auto

lemma dispatch_toolsCall:
  assumes "getProp p ''name'' = Val (JStr (lit n))"
  shows "dispatch e s (Val (JStr (lit ''tools/call''))) p i
           = toolsCall e s (Val (JStr (lit n))) (getProp p ''arguments'') i"
proof -
  have "\<not> nullish p" using assms getProp_nullish by fastforce
  with assms show ?thesis by (simp add: dispatch_def)
qed

lemma handleRequest_caught:
  assumes "\<not> nullish body" and "getProp body ''jsonrpc'' = Val (JStr (lit ''2.0''))"
    and "dispatch e s (getProp body ''method'') (getProp body ''params'') (getProp body ''id'')
           = (Inl err, s1)"
  shows "handleRequest e s body
           = (Inr (error_response (- 32603) ''Internal error'' (getProp body ''id'')),
              s1\<lparr>console := console s1 @ [err]\<rparr>)"
  using assms by (simp add: handleRequest_valid)

text \<open>
  C3. For a valid envelope: whatever the routing or a handler throws, \<open>handleRequest\<close> answers
  -32603 with the message \<open>Internal error\<close> and the request's id, and hands the error to
  \<open>console.error\<close>; the message of an error response is one of two fixed texts, so no status or
  body of an upstream answer is in it; and a \<open>tools/call\<close> of a registered tool is answered
  -32603 when no token is cached and the token endpoint answers outside 2xx, when the API answers
  outside 2xx, and when the arguments are \<open>undefined\<close> or \<open>null\<close>, after which the dispatcher
  still answers every next request.
\<close>

theorem exceptions_become_internal_error:
  assumes "\<not> nullish body" and "getProp body ''jsonrpc'' = Val (JStr (lit ''2.0''))"
  shows "(\<forall>err s1. dispatch e s (getProp body ''method'') (getProp body ''params'')
                      (getProp body ''id'') = (Inl err, s1) \<longrightarrow>
            handleRequest e s body
              = (Inr (error_response (- 32603) ''Internal error'' (getProp body ''id'')),
                 s1\<lparr>console := console s1 @ [err]\<rparr>))
       \<and> (\<exists>r s1. handleRequest e s body = (Inr r, s1)
             \<and> (errorOf r = None \<or> errorOf r = Some (- 32601, lit ''Method not found'')
                \<or> errorOf r = Some (- 32603, lit ''Internal error'')))
       \<and> (getProp body ''method'' = Val (JStr (lit ''tools/call''))
          \<and> getProp (getProp body ''params'') ''name'' = Val (JStr (lit n)) \<and> n \<in> set toolNames
          \<and> ((\<not> cacheHit s \<and> \<not> res_ok (token_endpoint e (calls s)))
             \<or> (\<forall>h url auth. \<not> res_ok (api_endpoint e h url auth))
             \<or> nullish (getProp (getProp body ''params'') ''arguments'')) \<longrightarrow>
            fst (handleRequest e s body)
              = Inr (error_response (- 32603) ''Internal error'' (getProp body ''id''))
            \<and> (\<forall>next. \<not> nullish next \<longrightarrow>
                 (\<exists>r s2. handleRequest e (snd (handleRequest e s body)) next = (Inr r, s2))))"
proof (intro conjI allI impI)
  fix err s1
  assume "dispatch e s (getProp body ''method'') (getProp body ''params'') (getProp body ''id'')
            = (Inl err, s1)"
  with assms show "handleRequest e s body
      = (Inr (error_response (- 32603) ''Internal error'' (getProp body ''id'')),
         s1\<lparr>console := console s1 @ [err]\<rparr>)"
    by (rule handleRequest_caught)
next
  from handleRequest_valid_shape [OF assms, of e s]
  show "\<exists>r s1. handleRequest e s body = (Inr r, s1)
          \<and> (errorOf r = None \<or> errorOf r = Some (- 32601, lit ''Method not found'')
             \<or> errorOf r = Some (- 32603, lit ''Internal error''))"
    by auto
next
  assume a: "getProp body ''method'' = Val (JStr (lit ''tools/call''))
          \<and> getProp (getProp body ''params'') ''name'' = Val (JStr (lit n)) \<and> n \<in> set toolNames
          \<and> ((\<not> cacheHit s \<and> \<not> res_ok (token_endpoint e (calls s)))
             \<or> (\<forall>h url auth. \<not> res_ok (api_endpoint e h url auth))
             \<or> nullish (getProp (getProp body ''params'') ''arguments''))"
  then have d: "dispatch e s (getProp body ''method'') (getProp body ''params'') (getProp body ''id'')
      = toolsCall e s (Val (JStr (lit n))) (getProp (getProp body ''params'') ''arguments'')
          (getProp body ''id'')"
    by (simp add: dispatch_toolsCall)
  have "\<exists>err s1. toolsCall e s (Val (JStr (lit n))) (getProp (getProp body ''params'') ''arguments'')
          (getProp body ''id'') = (Inl err, s1)"
    using a toolsCall_fails [of e s n] toolsCall_nullish_args [of _ n e s]
      apiRequest_token_fails [of s e] apiRequest_api_fails [of e s]
    by blast
  with d obtain err s1 where
    "dispatch e s (getProp body ''method'') (getProp body ''params'') (getProp body ''id'')
       = (Inl err, s1)"
    by auto
  with assms show "fst (handleRequest e s body)
      = Inr (error_response (- 32603) ''Internal error'' (getProp body ''id''))"
    by (simp add: handleRequest_caught)
next
  fix "next"
  assume "\<not> nullish next"
  from handleRequest_shape [OF this, of e "snd (handleRequest e s body)"]
  show "\<exists>r s2. handleRequest e (snd (handleRequest e s body)) next = (Inr r, s2)"
    by blast
qed

text \<open>
  The token endpoint answers 401: \<open>searchUsers\<close> is answered -32603, and the \<open>initialize\<close> that
  follows is answered.
\<close>

theorem exceptions_become_internal_error_witness:
  "\<not> nullish (toolsCallRequest ''searchUsers'' (JObj [(lit ''query'', JStr (lit ''jd''))]) (JNum (Whole 2)))
   \<and> getProp (toolsCallRequest ''searchUsers'' (JObj [(lit ''query'', JStr (lit ''jd''))]) (JNum (Whole 2))) ''jsonrpc''
       = Val (JStr (lit ''2.0''))
   \<and> ''searchUsers'' \<in> set toolNames
   \<and> \<not> cacheHit freshState
   \<and> \<not> res_ok (token_endpoint unauthorizedEnv (calls freshState))
   \<and> fst (handleRequest unauthorizedEnv freshState
            (toolsCallRequest ''searchUsers'' (JObj [(lit ''query'', JStr (lit ''jd''))]) (JNum (Whole 2))))
       = Inr (error_response (- 32603) ''Internal error'' (Val (JNum (Whole 2))))
   \<and> (\<exists>r s2. handleRequest unauthorizedEnv
                (snd (handleRequest unauthorizedEnv freshState
                        (toolsCallRequest ''searchUsers'' (JObj [(lit ''query'', JStr (lit ''jd''))]) (JNum (Whole 2)))))
                (envelope ''2.0'' ''initialize'' (JObj []) (JNum (Whole 3))) = (Inr r, s2))"
proof -
  let ?req = "toolsCallRequest ''searchUsers'' (JObj [(lit ''query'', JStr (lit ''jd''))]) (JNum (Whole 2))"
  have h1: "\<not> nullish ?req"
    by (simp add: toolsCallRequest_def envelope_def)
  have h2: "getProp ?req ''jsonrpc'' = Val (JStr (lit ''2.0''))"
    by (simp add: toolsCallRequest_def envelope_def)
  have h3: "getProp ?req ''method'' = Val (JStr (lit ''tools/call''))"
    and h4: "getProp (getProp ?req ''params'') ''name'' = Val (JStr (lit ''searchUsers''))"
    and h5: "getProp ?req ''id'' = Val (JNum (Whole 2))"
    by (simp_all add: toolsCallRequest_def envelope_def)
  have h6: "''searchUsers'' \<in> set toolNames"
    by (simp add: toolNames_def)
  have h7: "\<not> cacheHit freshState"
    by (simp add: cacheHit_def freshState_def NodeCache_get_def)
  have h8: "\<not> res_ok (token_endpoint unauthorizedEnv (calls freshState))"
    by (simp add: res_ok_def unauthorizedEnv_def)
  have h9: "\<not> nullish (envelope ''2.0'' ''initialize'' (JObj []) (JNum (Whole 3)))"
    by (simp add: envelope_def)
  from exceptions_become_internal_error [OF h1 h2, of unauthorizedEnv freshState "''searchUsers''"]
    h3 h4 h5 h6 h7 h8 h9
  have "fst (handleRequest unauthorizedEnv freshState ?req)
          = Inr (error_response (- 32603) ''Internal error'' (Val (JNum (Whole 2))))
        \<and> (\<exists>r s2. handleRequest unauthorizedEnv (snd (handleRequest unauthorizedEnv freshState ?req))
                     (envelope ''2.0'' ''initialize'' (JObj []) (JNum (Whole 3))) = (Inr r, s2))"
    by simp
  with h1 h2 h6 h7 h8 show ?thesis by simp
qed

section \<open>Method not found\<close>

text \<open>
  C5. For a valid envelope: a \<open>tools/call\<close> whose \<open>params.name\<close> is none of the thirteen tool
  names, and a request whose method is none of \<open>initialize\<close>, \<open>tools/list\<close>, \<open>tools/call\<close> and
  \<open>resources/list\<close>, are answered -32601, \<open>Method not found\<close>, with the request's id, and nothing
  else happens.
\<close>

theorem unknown_tool_or_method_not_found:
  assumes "\<not> nullish body" and "getProp body ''jsonrpc'' = Val (JStr (lit ''2.0''))"
  shows "(getProp body ''method'' = Val (JStr (lit ''tools/call''))
          \<and> \<not> nullish (getProp body ''params'')
          \<and> (\<forall>n \<in> set toolNames. getProp (getProp body ''params'') ''name'' \<noteq> Val (JStr (lit n))) \<longrightarrow>
            handleRequest e s body
              = (Inr (error_response (- 32601) ''Method not found'' (getProp body ''id'')), s))
       \<and> (getProp body ''method'' \<noteq> Val (JStr (lit ''initialize''))
          \<and> getProp body ''method'' \<noteq> Val (JStr (lit ''tools/list''))
          \<and> getProp body ''method'' \<noteq> Val (JStr (lit ''tools/call''))
          \<and> getProp body ''method'' \<noteq> Val (JStr (lit ''resources/list'')) \<longrightarrow>
            handleRequest e s body
              = (Inr (error_response (- 32601) ''Method not found'' (getProp body ''id'')), s))"
  using assms
  by (simp add: handleRequest_valid dispatch_def toolsCall_def toolNames_def)

text \<open>The tool \<open>doesNotExist\<close>, and the method \<open>resources/read\<close>.\<close>

theorem unknown_tool_or_method_not_found_witness:
  "\<not> nullish (toolsCallRequest ''doesNotExist'' (JObj []) (JNum (Whole 9)))
   \<and> getProp (toolsCallRequest ''doesNotExist'' (JObj []) (JNum (Whole 9))) ''jsonrpc'' = Val (JStr (lit ''2.0''))
   \<and> handleRequest okEnv freshState (toolsCallRequest ''doesNotExist'' (JObj []) (JNum (Whole 9)))
       = (Inr (error_response (- 32601) ''Method not found'' (Val (JNum (Whole 9)))), freshState)
   \<and> \<not> nullish (envelope ''2.0'' ''resources/read'' (JObj []) (JStr (lit ''r1'')))
   \<and> handleRequest okEnv freshState (envelope ''2.0'' ''resources/read'' (JObj []) (JStr (lit ''r1'')))
       = (Inr (error_response (- 32601) ''Method not found'' (Val (JStr (lit ''r1'')))), freshState)"
  using unknown_tool_or_method_not_found
          [of "toolsCallRequest ''doesNotExist'' (JObj []) (JNum (Whole 9))" okEnv freshState]
        unknown_tool_or_method_not_found
          [of "envelope ''2.0'' ''resources/read'' (JObj []) (JStr (lit ''r1''))" okEnv freshState]
  by (simp add: toolsCallRequest_def envelope_def toolNames_def)

section \<open>\<open>tools/call\<close> with \<open>params\<close> that are not an object\<close>

lemma getProp_primitiveOrArray:
  "primitiveOrArray p \<Longrightarrow> k \<noteq> ''length'' \<Longrightarrow> k \<noteq> ''filter'' \<Longrightarrow> k \<noteq> ''sort'' \<Longrightarrow>
     getProp p k = Undefined"
  by (cases p rule: primitiveOrArray.cases) auto

lemma primitiveOrArray_not_nullish: "primitiveOrArray p \<Longrightarrow> \<not> nullish p"
  by (cases p rule: primitiveOrArray.cases) auto

text \<open>
  C9, as the code has it. For a valid \<open>tools/call\<close>: when \<open>params\<close> is absent or \<open>null\<close> the
  destructuring throws, and the response is -32603 with the request's id; when \<open>params\<close> is a
  number, a string, a boolean or an array the destructuring succeeds with \<open>name\<close> undefined, and
  the response is -32601 with the request's id. Neither crashes.
\<close>

theorem tools_call_params_not_an_object:
  assumes "\<not> nullish body" and "getProp body ''jsonrpc'' = Val (JStr (lit ''2.0''))"
    and "getProp body ''method'' = Val (JStr (lit ''tools/call''))"
  shows "(nullish (getProp body ''params'') \<longrightarrow>
            handleRequest e s body
              = (Inr (error_response (- 32603) ''Internal error'' (getProp body ''id'')),
                 s\<lparr>console := console s @ [TypeError]\<rparr>))
       \<and> (primitiveOrArray (getProp body ''params'') \<longrightarrow>
            handleRequest e s body
              = (Inr (error_response (- 32601) ''Method not found'' (getProp body ''id'')), s))"
proof (intro conjI impI)
  assume "nullish (getProp body ''params'')"
  with assms show "handleRequest e s body
      = (Inr (error_response (- 32603) ''Internal error'' (getProp body ''id'')),
         s\<lparr>console := console s @ [TypeError]\<rparr>)"
    by (simp add: handleRequest_valid dispatch_def)
next
  assume p: "primitiveOrArray (getProp body ''params'')"
  then have "getProp (getProp body ''params'') ''name'' = Undefined"
    by (simp add: getProp_primitiveOrArray)
  with p assms show "handleRequest e s body
      = (Inr (error_response (- 32601) ''Method not found'' (getProp body ''id'')), s)"
    by (simp add: handleRequest_valid dispatch_def toolsCall_def primitiveOrArray_not_nullish)
qed

text \<open>\<open>params\<close> is \<open>null\<close>, then \<open>params\<close> is the array \<open>["searchUsers"]\<close>.\<close>

theorem tools_call_params_not_an_object_witness:
  "\<not> nullish (envelope ''2.0'' ''tools/call'' JNull (JNum (Whole 4)))
   \<and> nullish (getProp (envelope ''2.0'' ''tools/call'' JNull (JNum (Whole 4))) ''params'')
   \<and> handleRequest okEnv freshState (envelope ''2.0'' ''tools/call'' JNull (JNum (Whole 4)))
       = (Inr (error_response (- 32603) ''Internal error'' (Val (JNum (Whole 4)))),
          freshState\<lparr>console := console freshState @ [TypeError]\<rparr>)
   \<and> \<not> nullish (envelope ''2.0'' ''tools/call'' (JArr [JStr (lit ''searchUsers'')]) (JNum (Whole 5)))
   \<and> primitiveOrArray (getProp (envelope ''2.0'' ''tools/call'' (JArr [JStr (lit ''searchUsers'')]) (JNum (Whole 5))) ''params'')
   \<and> handleRequest okEnv freshState (envelope ''2.0'' ''tools/call'' (JArr [JStr (lit ''searchUsers'')]) (JNum (Whole 5)))
       = (Inr (error_response (- 32601) ''Method not found'' (Val (JNum (Whole 5)))), freshState)"
  using tools_call_params_not_an_object
          [of "envelope ''2.0'' ''tools/call'' JNull (JNum (Whole 4))" okEnv freshState]
        tools_call_params_not_an_object
          [of "envelope ''2.0'' ''tools/call'' (JArr [JStr (lit ''searchUsers'')]) (JNum (Whole 5))" okEnv freshState]
  by (simp add: envelope_def)

text \<open>
  C9 as stated fails: with \<open>params\<close> the number 5, which is not an object, the response is
  -32601, not -32603.
\<close>

theorem number_params_is_method_not_found:
  "getProp (envelope ''2.0'' ''tools/call'' (JNum (Whole 5)) (JNum (Whole 6))) ''params'' = Val (JNum (Whole 5))
   \<and> handleRequest okEnv freshState (envelope ''2.0'' ''tools/call'' (JNum (Whole 5)) (JNum (Whole 6)))
       = (Inr (error_response (- 32601) ''Method not found'' (Val (JNum (Whole 6)))), freshState)
   \<and> errorOf (responseOf (handleRequest okEnv freshState (envelope ''2.0'' ''tools/call'' (JNum (Whole 5)) (JNum (Whole 6)))))
       \<noteq> Some (- 32603, lit ''Internal error'')"
  by (simp add: envelope_def handleRequest_def dispatch_def toolsCall_def responseOf_def)

section \<open>The token cache at work\<close>

lemma requestToken_ok:
  assumes "res_ok (token_endpoint e (calls s))"
    and "res_json (token_endpoint e (calls s)) = Some (tok, expires_in)"
  shows "requestToken e s =
           (Inr tok,
            s\<lparr>calls := calls s @ [FetchPost (API_BASE @ lit ''/oauth/token'')],
               now := now s + int (res_elapsed (token_endpoint e (calls s))),
               tokenCache := (tokenCache s)(''access_token'' \<mapsto>
                  (tok, now s + int (res_elapsed (token_endpoint e (calls s))) + (expires_in - 60)))\<rparr>)"
  using assms by (simp add: requestToken_def Let_def NodeCache_set_def)

lemma requestToken_calls:
  "calls (snd (requestToken e s)) = calls s @ [FetchPost (API_BASE @ lit ''/oauth/token'')]"
  by (simp add: requestToken_def Let_def split: option.splits prod.splits)

lemma cacheHit_valid:
  assumes "tokenCache s ''access_token'' = Some (tok, expiresAt)"
    and "tok \<noteq> []" and "now s < expiresAt"
  shows "getAccessToken e s = (Inr tok, s)"
  using assms by (cases tok) (simp_all add: getAccessToken_def NodeCache_get_def)

lemma cacheHit_expired:
  assumes "tokenCache s ''access_token'' = Some (v, expiresAt)" and "expiresAt \<le> now s"
  shows "\<not> cacheHit s"
  using assms by (simp add: cacheHit_def NodeCache_get_def)

text \<open>
  C4. With no usable token in the cache and a 2xx answer of the token endpoint,
  \<open>getAccessToken\<close> makes one POST and stores the token with the expiry
  \<open>now + expires_in - 60\<close>, \<open>now\<close> being the moment the answer has arrived; a second call at any
  moment before that expiry returns the stored token, when it is not the empty string, and
  leaves the state as it is, so the two calls have made one POST. A call in a state whose
  stored token has not expired changes nothing; a call in a state whose stored token has
  expired makes exactly one POST.
\<close>

theorem token_cache_single_exchange:
  "(\<not> cacheHit s \<and> res_ok (token_endpoint e (calls s))
      \<and> res_json (token_endpoint e (calls s)) = Some (tok, expires_in) \<longrightarrow>
      getAccessToken e s =
        (Inr tok,
         s\<lparr>calls := calls s @ [FetchPost (API_BASE @ lit ''/oauth/token'')],
            now := now s + int (res_elapsed (token_endpoint e (calls s))),
            tokenCache := (tokenCache s)(''access_token'' \<mapsto>
               (tok, now s + int (res_elapsed (token_endpoint e (calls s))) + expires_in - 60))\<rparr>)
      \<and> (\<forall>t. tok \<noteq> [] \<and> t < now (snd (getAccessToken e s)) + expires_in - 60 \<longrightarrow>
            getAccessToken e ((snd (getAccessToken e s))\<lparr>now := t\<rparr>)
              = (Inr tok, (snd (getAccessToken e s))\<lparr>now := t\<rparr>)
            \<and> calls (snd (getAccessToken e ((snd (getAccessToken e s))\<lparr>now := t\<rparr>)))
              = calls s @ [FetchPost (API_BASE @ lit ''/oauth/token'')]))
   \<and> (tokenCache s ''access_token'' = Some (tok, expiresAt) \<and> tok \<noteq> [] \<and> now s < expiresAt \<longrightarrow>
        getAccessToken e s = (Inr tok, s))
   \<and> (tokenCache s ''access_token'' = Some (tok, expiresAt) \<and> expiresAt \<le> now s \<longrightarrow>
        calls (snd (getAccessToken e s)) = calls s @ [FetchPost (API_BASE @ lit ''/oauth/token'')])"
proof (intro conjI impI allI)
  assume a: "\<not> cacheHit s \<and> res_ok (token_endpoint e (calls s))
      \<and> res_json (token_endpoint e (calls s)) = Some (tok, expires_in)"
  then show g: "getAccessToken e s =
        (Inr tok,
         s\<lparr>calls := calls s @ [FetchPost (API_BASE @ lit ''/oauth/token'')],
            now := now s + int (res_elapsed (token_endpoint e (calls s))),
            tokenCache := (tokenCache s)(''access_token'' \<mapsto>
               (tok, now s + int (res_elapsed (token_endpoint e (calls s))) + expires_in - 60))\<rparr>)"
    by (simp add: getAccessToken_miss requestToken_ok add_diff_eq)
  fix t
  assume b: "tok \<noteq> [] \<and> t < now (snd (getAccessToken e s)) + expires_in - 60"
  let ?s2 = "(snd (getAccessToken e s))\<lparr>now := t\<rparr>"
  have "tokenCache ?s2 ''access_token''
          = Some (tok, now (snd (getAccessToken e s)) + expires_in - 60)"
    by (simp add: g)
  moreover have "now ?s2 < now (snd (getAccessToken e s)) + expires_in - 60"
    using b by simp
  ultimately show h: "getAccessToken e ?s2 = (Inr tok, ?s2)"
    using b cacheHit_valid by blast
  show "calls (snd (getAccessToken e ?s2)) = calls s @ [FetchPost (API_BASE @ lit ''/oauth/token'')]"
    by (simp add: h) (simp add: g)
next
  assume "tokenCache s ''access_token'' = Some (tok, expiresAt) \<and> tok \<noteq> [] \<and> now s < expiresAt"
  then show "getAccessToken e s = (Inr tok, s)"
    by (simp add: cacheHit_valid)
next
  assume "tokenCache s ''access_token'' = Some (tok, expiresAt) \<and> expiresAt \<le> now s"
  then have "\<not> cacheHit s" by (auto dest: cacheHit_expired)
  then show "calls (snd (getAccessToken e s)) = calls s @ [FetchPost (API_BASE @ lit ''/oauth/token'')]"
    by (simp add: getAccessToken_miss requestToken_calls)
qed

text \<open>
  A process that has just started, and the token \<open>tok\<close> good for 7200 seconds: it is stored
  until 1001 + 7200 - 60 = 8141; at second 5000 it is served, at second 8141 it is fetched again.
\<close>

theorem token_cache_single_exchange_witness:
  "\<not> cacheHit freshState
   \<and> res_ok (token_endpoint okEnv (calls freshState))
   \<and> res_json (token_endpoint okEnv (calls freshState)) = Some (lit ''tok'', 7200)
   \<and> fst (getAccessToken okEnv freshState) = Inr (lit ''tok'')
   \<and> calls (snd (getAccessToken okEnv freshState)) = [FetchPost (lit ''https://api.intra.42.fr/oauth/token'')]
   \<and> now (snd (getAccessToken okEnv freshState)) = 1001
   \<and> tokenCache (snd (getAccessToken okEnv freshState)) ''access_token'' = Some (lit ''tok'', 8141)
   \<and> (5000::int) < 1001 + 7200 - 60
   \<and> calls (snd (getAccessToken okEnv ((snd (getAccessToken okEnv freshState))\<lparr>now := 5000\<rparr>)))
       = [FetchPost (lit ''https://api.intra.42.fr/oauth/token'')]
   \<and> tokenCache cachedState ''access_token'' = Some (lit ''tok'', 8141)
   \<and> now cachedState < 8141
   \<and> getAccessToken okEnv cachedState = (Inr (lit ''tok''), cachedState)
   \<and> 8141 \<le> now (cachedState\<lparr>now := 8141\<rparr>)
   \<and> calls (snd (getAccessToken okEnv (cachedState\<lparr>now := 8141\<rparr>)))
       = [FetchPost (lit ''https://api.intra.42.fr/oauth/token''),
          FetchPost (lit ''https://api.intra.42.fr/oauth/token'')]"
proof -
  have h1: "\<not> cacheHit freshState"
    by (simp add: cacheHit_def freshState_def NodeCache_get_def)
  have h2: "res_ok (token_endpoint okEnv (calls freshState))"
    and h3: "res_json (token_endpoint okEnv (calls freshState)) = Some (lit ''tok'', 7200)"
    and h4: "res_elapsed (token_endpoint okEnv (calls freshState)) = 1"
    by (simp_all add: res_ok_def okEnv_def)
  note fresh = token_cache_single_exchange
      [where s = freshState and e = okEnv and tok = "lit ''tok''" and expires_in = 7200]
  from fresh h1 h2 h3
  have g: "getAccessToken okEnv freshState =
        (Inr (lit ''tok''),
         freshState\<lparr>calls := calls freshState @ [FetchPost (API_BASE @ lit ''/oauth/token'')],
            now := now freshState + int (res_elapsed (token_endpoint okEnv (calls freshState))),
            tokenCache := (tokenCache freshState)(''access_token'' \<mapsto>
               (lit ''tok'', now freshState + int (res_elapsed (token_endpoint okEnv (calls freshState)))
                         + 7200 - 60))\<rparr>)"
    by blast
  have n: "now (snd (getAccessToken okEnv freshState)) = 1001"
    by (simp add: g h4) (simp add: freshState_def)
  from fresh h1 h2 h3
  have "\<forall>t. lit ''tok'' \<noteq> [] \<and> t < now (snd (getAccessToken okEnv freshState)) + 7200 - 60 \<longrightarrow>
          calls (snd (getAccessToken okEnv ((snd (getAccessToken okEnv freshState))\<lparr>now := t\<rparr>)))
            = calls freshState @ [FetchPost (API_BASE @ lit ''/oauth/token'')]"
    by blast
  then have twice:
    "calls (snd (getAccessToken okEnv ((snd (getAccessToken okEnv freshState))\<lparr>now := 5000\<rparr>)))
       = [FetchPost (lit ''https://api.intra.42.fr/oauth/token'')]"
    by (simp add: n) (simp add: freshState_def API_BASE_def)
  have c1: "tokenCache cachedState ''access_token'' = Some (lit ''tok'', 8141)"
    and c2: "now cachedState < 8141"
    and c3: "calls cachedState = [FetchPost (lit ''https://api.intra.42.fr/oauth/token'')]"
    by (simp_all add: cachedState_def)
  from token_cache_single_exchange
      [where s = cachedState and e = okEnv and tok = "lit ''tok''" and expiresAt = 8141] c1 c2
  have hit: "getAccessToken okEnv cachedState = (Inr (lit ''tok''), cachedState)"
    by simp
  have "tokenCache (cachedState\<lparr>now := 8141\<rparr>) ''access_token'' = Some (lit ''tok'', 8141)
        \<and> 8141 \<le> now (cachedState\<lparr>now := 8141\<rparr>)"
    by (simp add: c1)
  with token_cache_single_exchange
      [where s = "cachedState\<lparr>now := 8141\<rparr>" and e = okEnv and tok = "lit ''tok''" and expiresAt = 8141]
  have expired: "calls (snd (getAccessToken okEnv (cachedState\<lparr>now := 8141\<rparr>)))
       = [FetchPost (lit ''https://api.intra.42.fr/oauth/token''),
          FetchPost (lit ''https://api.intra.42.fr/oauth/token'')]"
    by (simp add: c3 API_BASE_def)
  have g1: "fst (getAccessToken okEnv freshState) = Inr (lit ''tok'')"
    and g2: "calls (snd (getAccessToken okEnv freshState)) = [FetchPost (lit ''https://api.intra.42.fr/oauth/token'')]"
    and g3: "tokenCache (snd (getAccessToken okEnv freshState)) ''access_token'' = Some (lit ''tok'', 8141)"
    by (simp_all add: g h4) (simp_all add: freshState_def API_BASE_def)
  from h1 h2 h3 g1 g2 n g3 twice c1 c2 hit expired show ?thesis
    by simp
qed

section \<open>The calls of the API client\<close>

lemma getAccessToken_calls:
  "calls (snd (getAccessToken e s)) = calls s
   \<or> calls (snd (getAccessToken e s)) = calls s @ [FetchPost (API_BASE @ lit ''/oauth/token'')]"
proof (cases "cacheHit s")
  case True
  then show ?thesis using getAccessToken_hit [of s e] by auto
next
  case False
  then show ?thesis by (simp add: getAccessToken_miss requestToken_calls)
qed

lemma apiRequest_token:
  assumes "getAccessToken e s = (Inr token, s1)"
  shows "calls (snd (apiRequest e s p)) = calls s1 @ [FetchGet (API_BASE @ p) (lit ''Bearer '' @ token)]"
    and "res_ok (api_endpoint e (calls s1) (API_BASE @ p) (lit ''Bearer '' @ token)) \<Longrightarrow>
         res_json (api_endpoint e (calls s1) (API_BASE @ p) (lit ''Bearer '' @ token)) = Some v \<Longrightarrow>
         fst (apiRequest e s p) = Inr v"
  using assms by (simp_all add: apiRequest_def Let_def split: option.splits)

lemma apiRequest_no_token:
  assumes "getAccessToken e s = (Inl err, s1)"
  shows "apiRequest e s p = (Inl err, s1)"
  using assms by (simp add: apiRequest_def)

lemma apiRequest_newCalls:
  "\<forall>c \<in> set (newCalls s (snd (apiRequest e s p))).
      c = FetchPost (API_BASE @ lit ''/oauth/token'') \<or> (\<exists>auth. c = FetchGet (API_BASE @ p) auth)"
proof (cases "getAccessToken e s")
  case (Pair out s1)
  then have s1: "calls s1 = calls s \<or> calls s1 = calls s @ [FetchPost (API_BASE @ lit ''/oauth/token'')]"
    using getAccessToken_calls [of e s] by simp
  show ?thesis
  proof (cases out)
    case (Inl err)
    with Pair have "apiRequest e s p = (Inl err, s1)" by (simp add: apiRequest_no_token)
    with s1 show ?thesis by (auto simp: newCalls_def)
  next
    case (Inr token)
    with Pair have "calls (snd (apiRequest e s p))
        = calls s1 @ [FetchGet (API_BASE @ p) (lit ''Bearer '' @ token)]"
      by (simp add: apiRequest_token)
    with s1 show ?thesis by (auto simp: newCalls_def)
  qed
qed

section \<open>\<open>searchUsers\<close>\<close>

lemma encodeUnits_jd: "encodeUnits (lit ''jd'') = Inr (lit ''jd'')"
  by (simp add: lit_def unreserved_def bindE_def)

lemma searchUsers_handle:
  assumes "encodeUnits q = Inr enc"
  shows "handleRequest e s (toolsCallRequest ''searchUsers'' (JObj [(lit ''query'', JStr q)]) i)
   = (case apiRequest e s (lit ''/v2/users?filter[login]='' @ enc @ lit ''&page[size]=5'') of
        (Inl err, s1) \<Rightarrow>
          (Inr (error_response (- 32603) ''Internal error'' (Val i)), s1\<lparr>console := console s1 @ [err]\<rparr>)
      | (Inr v, s1) \<Rightarrow>
          (Inr (result_response (text_content (JSON_stringify (Number_toString e) v)) (Val i)), s1))"
proof -
  let ?req = "toolsCallRequest ''searchUsers'' (JObj [(lit ''query'', JStr q)]) i"
  have v: "\<not> nullish ?req" "getProp ?req ''jsonrpc'' = Val (JStr (lit ''2.0''))"
    by (simp_all add: toolsCallRequest_def envelope_def)
  have m: "getProp ?req ''method'' = Val (JStr (lit ''tools/call''))"
    "getProp ?req ''params''
       = Val (JObj [(lit ''name'', JStr (lit ''searchUsers'')),
                    (lit ''arguments'', JObj [(lit ''query'', JStr q)])])"
    "getProp ?req ''id'' = Val i"
    by (simp_all add: toolsCallRequest_def envelope_def)
  have p: "path_searchUsers e (Val (JObj [(lit ''query'', JStr q)]))
             = Inr (lit ''/v2/users?filter[login]='' @ enc @ lit ''&page[size]=5'')"
    using assms
    by (simp add: path_searchUsers_def encoded_def encodeURIComponent_def bindE_def)
  have d: "dispatch e s (Val (JStr (lit ''tools/call'')))
      (Val (JObj [(lit ''name'', JStr (lit ''searchUsers'')),
                  (lit ''arguments'', JObj [(lit ''query'', JStr q)])])) (Val i)
   = (case apiRequest e s (lit ''/v2/users?filter[login]='' @ enc @ lit ''&page[size]=5'') of
        (Inl err, s1) \<Rightarrow> (Inl err, s1)
      | (Inr v, s1) \<Rightarrow>
          (Inr (result_response (text_content (JSON_stringify (Number_toString e) v)) (Val i)), s1))"
    by (simp add: dispatch_def toolsCall_def callTool_def p)
  show ?thesis
    unfolding handleRequest_valid [OF v] m d
    by (simp split: prod.splits sum.splits)
qed

lemma searchUsers_calls:
  assumes "encodeUnits q = Inr enc" and "getAccessToken e s = (Inr token, s1)"
  shows "calls (snd (handleRequest e s (toolsCallRequest ''searchUsers'' (JObj [(lit ''query'', JStr q)]) i)))
           = calls s1 @ [FetchGet (API_BASE @ lit ''/v2/users?filter[login]='' @ enc
                                   @ lit ''&page[size]=5'') (lit ''Bearer '' @ token)]"
proof -
  let ?p = "lit ''/v2/users?filter[login]='' @ enc @ lit ''&page[size]=5''"
  have "calls (snd (handleRequest e s (toolsCallRequest ''searchUsers'' (JObj [(lit ''query'', JStr q)]) i)))
          = calls (snd (apiRequest e s ?p))"
    by (cases "apiRequest e s ?p") (auto simp: searchUsers_handle [OF assms(1)] split: sum.splits)
  with apiRequest_token(1) [OF assms(2), of ?p] show ?thesis by simp
qed

lemma searchUsers_result:
  assumes "encodeUnits q = Inr enc" and "getAccessToken e s = (Inr token, s1)"
    and "res_ok (api_endpoint e (calls s1)
                   (API_BASE @ lit ''/v2/users?filter[login]='' @ enc @ lit ''&page[size]=5'')
                   (lit ''Bearer '' @ token))"
    and "res_json (api_endpoint e (calls s1)
                   (API_BASE @ lit ''/v2/users?filter[login]='' @ enc @ lit ''&page[size]=5'')
                   (lit ''Bearer '' @ token)) = Some v"
  shows "fst (handleRequest e s (toolsCallRequest ''searchUsers'' (JObj [(lit ''query'', JStr q)]) i))
           = Inr (result_response (text_content (JSON_stringify (Number_toString e) v)) (Val i))"
proof -
  let ?p = "lit ''/v2/users?filter[login]='' @ enc @ lit ''&page[size]=5''"
  have "fst (apiRequest e s ?p) = Inr v"
    using apiRequest_token(2) [OF assms(2), of ?p v] assms(3,4) by simp
  then show ?thesis
    by (cases "apiRequest e s ?p") (simp add: searchUsers_handle [OF assms(1)])
qed

lemma JSON_stringify_array:
  "JSON_stringify dbl (JArr (x # xs))
     = lit (''['' @ [CHR 0x0A] @ ''  '')
       @ join (lit ('','' @ [CHR 0x0A] @ ''  '')) (map (stringifyAt dbl 2) (x # xs))
       @ lit ([CHR 0x0A] @ '']'')"
  by (simp add: JSON_stringify_def pad_def newline_def eval_nat_numeral)

lemma sampleUsers_text:
  "JSON_stringify sampleDigits sampleUsers
     = lit (''['' @ [CHR 0x0A]
            @ ''  {'' @ [CHR 0x0A]
            @ ''    '' @ [CHR 0x22] @ ''id'' @ [CHR 0x22] @ '': 7,'' @ [CHR 0x0A]
            @ ''    '' @ [CHR 0x22] @ ''login'' @ [CHR 0x22] @ '': '' @ [CHR 0x22] @ ''jdoe''
                       @ [CHR 0x22] @ '','' @ [CHR 0x0A]
            @ ''    '' @ [CHR 0x22] @ ''level'' @ [CHR 0x22] @ '': 4.21,'' @ [CHR 0x0A]
            @ ''    '' @ [CHR 0x22] @ ''staff?'' @ [CHR 0x22] @ '': false,'' @ [CHR 0x0A]
            @ ''    '' @ [CHR 0x22] @ ''image'' @ [CHR 0x22] @ '': null,'' @ [CHR 0x0A]
            @ ''    '' @ [CHR 0x22] @ ''titles'' @ [CHR 0x22] @ '': []'' @ [CHR 0x0A]
            @ ''  }'' @ [CHR 0x0A]
            @ '']'')"
  by (simp add: JSON_stringify_def sampleUsers_def sampleDigits_def stringifyNumber_def
      showNumber_def showInt_def digits.simps quote_def escapeUnits_plain pad_def newline_def)

lemma okEnv_token:
  "fst (getAccessToken okEnv freshState) = Inr (lit ''tok'')"
  "calls (snd (getAccessToken okEnv freshState))
     = [FetchPost (lit ''https://api.intra.42.fr/oauth/token'')]"
  by (simp_all add: getAccessToken_def requestToken_def NodeCache_get_def res_ok_def okEnv_def
      freshState_def Let_def API_BASE_def)

lemma okEnv_api:
  "res_ok (api_endpoint okEnv h url auth)"
  "res_json (api_endpoint okEnv h url auth) = Some sampleUsers"
  "Number_toString okEnv = sampleDigits"
  by (simp_all add: res_ok_def okEnv_def)

text \<open>
  C7. The request \<open>{"jsonrpc":"2.0","method":"tools/call","params":{"name":"searchUsers",
  "arguments":{"query":"jd"}},"id":2}\<close>, when \<open>getAccessToken\<close> yields a token: after the
  token (from the cache, or by one POST) the dispatcher makes exactly one GET, of
  \<open>/v2/users?filter[login]=jd&page[size]=5\<close>. When the API answers 2xx with the JSON value
  \<open>users\<close>, the response is the object with \<open>jsonrpc\<close> \<open>"2.0"\<close>, the id 2 and the result
  \<open>{content: [{type: "text", text: JSON.stringify(users, null, 2)}]}\<close>, a single text item;
  for an array the text is \<open>[]\<close> when it is empty, and otherwise its elements, each on a line
  of its own at an indentation of two, between \<open>[\<close> and \<open>]\<close>.
\<close>

theorem searchUsers_scenario:
  assumes "getAccessToken e s = (Inr token, s1)"
  shows "calls (snd (handleRequest e s
                  (toolsCallRequest ''searchUsers'' (JObj [(lit ''query'', JStr (lit ''jd''))])
                     (JNum (Whole 2)))))
           = calls s1 @ [FetchGet (API_BASE @ lit ''/v2/users?filter[login]=jd&page[size]=5'')
                                  (lit ''Bearer '' @ token)]
       \<and> (calls s1 = calls s \<or> calls s1 = calls s @ [FetchPost (API_BASE @ lit ''/oauth/token'')])
       \<and> (res_ok (api_endpoint e (calls s1)
                     (API_BASE @ lit ''/v2/users?filter[login]=jd&page[size]=5'')
                     (lit ''Bearer '' @ token))
          \<and> res_json (api_endpoint e (calls s1)
                         (API_BASE @ lit ''/v2/users?filter[login]=jd&page[size]=5'')
                         (lit ''Bearer '' @ token)) = Some users \<longrightarrow>
            fst (handleRequest e s
                   (toolsCallRequest ''searchUsers'' (JObj [(lit ''query'', JStr (lit ''jd''))])
                      (JNum (Whole 2))))
              = Inr [(''jsonrpc'', Val (JStr (lit ''2.0''))),
                     (''result'',
                        Val (JObj [(lit ''content'',
                                      JArr [JObj [(lit ''type'', JStr (lit ''text'')),
                                                  (lit ''text'',
                                                     JStr (JSON_stringify (Number_toString e) users))]])])),
                     (''id'', Val (JNum (Whole 2)))]
            \<and> (users = JArr [] \<longrightarrow> JSON_stringify (Number_toString e) users = lit ''[]'')
            \<and> (\<forall>x xs. users = JArr (x # xs) \<longrightarrow>
                 JSON_stringify (Number_toString e) users
                   = lit (''['' @ [CHR 0x0A] @ ''  '')
                     @ join (lit ('','' @ [CHR 0x0A] @ ''  ''))
                         (map (stringifyAt (Number_toString e) 2) (x # xs))
                     @ lit ([CHR 0x0A] @ '']'')))"
proof (intro conjI impI allI)
  show "calls (snd (handleRequest e s
                  (toolsCallRequest ''searchUsers'' (JObj [(lit ''query'', JStr (lit ''jd''))])
                     (JNum (Whole 2)))))
           = calls s1 @ [FetchGet (API_BASE @ lit ''/v2/users?filter[login]=jd&page[size]=5'')
                                  (lit ''Bearer '' @ token)]"
    using searchUsers_calls [OF encodeUnits_jd assms, of "JNum (Whole 2)"] by simp
  show "calls s1 = calls s \<or> calls s1 = calls s @ [FetchPost (API_BASE @ lit ''/oauth/token'')]"
    using getAccessToken_calls [of e s] assms by simp
next
  assume "res_ok (api_endpoint e (calls s1)
                     (API_BASE @ lit ''/v2/users?filter[login]=jd&page[size]=5'')
                     (lit ''Bearer '' @ token))
          \<and> res_json (api_endpoint e (calls s1)
                         (API_BASE @ lit ''/v2/users?filter[login]=jd&page[size]=5'')
                         (lit ''Bearer '' @ token)) = Some users"
  then show "fst (handleRequest e s
                   (toolsCallRequest ''searchUsers'' (JObj [(lit ''query'', JStr (lit ''jd''))])
                      (JNum (Whole 2))))
              = Inr [(''jsonrpc'', Val (JStr (lit ''2.0''))),
                     (''result'',
                        Val (JObj [(lit ''content'',
                                      JArr [JObj [(lit ''type'', JStr (lit ''text'')),
                                                  (lit ''text'',
                                                     JStr (JSON_stringify (Number_toString e) users))]])])),
                     (''id'', Val (JNum (Whole 2)))]"
    using searchUsers_result [OF encodeUnits_jd assms, of users "JNum (Whole 2)"]
    by (simp add: result_response_def text_content_def)
next
  assume "users = JArr []"
  then show "JSON_stringify (Number_toString e) users = lit ''[]''"
    by (simp add: JSON_stringify_def)
next
  fix x xs
  assume "users = JArr (x # xs)"
  then show "JSON_stringify (Number_toString e) users
                   = lit (''['' @ [CHR 0x0A] @ ''  '')
                     @ join (lit ('','' @ [CHR 0x0A] @ ''  ''))
                         (map (stringifyAt (Number_toString e) 2) (x # xs))
                     @ lit ([CHR 0x0A] @ '']'')"
    by (simp only: JSON_stringify_array)
qed

text \<open>
  Both endpoints answer 200, the API with the one user of \<open>sampleUsers\<close>: the two calls, and the
  response with its text written out.
\<close>

theorem searchUsers_scenario_witness:
  "fst (getAccessToken okEnv freshState) = Inr (lit ''tok'')
   \<and> calls (snd (handleRequest okEnv freshState
                  (toolsCallRequest ''searchUsers'' (JObj [(lit ''query'', JStr (lit ''jd''))])
                     (JNum (Whole 2)))))
       = [FetchPost (lit ''https://api.intra.42.fr/oauth/token''),
          FetchGet (lit ''https://api.intra.42.fr/v2/users?filter[login]=jd&page[size]=5'')
                   (lit ''Bearer tok'')]
   \<and> fst (handleRequest okEnv freshState
            (toolsCallRequest ''searchUsers'' (JObj [(lit ''query'', JStr (lit ''jd''))])
               (JNum (Whole 2))))
       = Inr [(''jsonrpc'', Val (JStr (lit ''2.0''))),
              (''result'',
                 Val (JObj [(lit ''content'',
                    JArr [JObj [(lit ''type'', JStr (lit ''text'')),
                                (lit ''text'',
                                   JStr (lit (''['' @ [CHR 0x0A]
            @ ''  {'' @ [CHR 0x0A]
            @ ''    '' @ [CHR 0x22] @ ''id'' @ [CHR 0x22] @ '': 7,'' @ [CHR 0x0A]
            @ ''    '' @ [CHR 0x22] @ ''login'' @ [CHR 0x22] @ '': '' @ [CHR 0x22] @ ''jdoe''
                       @ [CHR 0x22] @ '','' @ [CHR 0x0A]
            @ ''    '' @ [CHR 0x22] @ ''level'' @ [CHR 0x22] @ '': 4.21,'' @ [CHR 0x0A]
            @ ''    '' @ [CHR 0x22] @ ''staff?'' @ [CHR 0x22] @ '': false,'' @ [CHR 0x0A]
            @ ''    '' @ [CHR 0x22] @ ''image'' @ [CHR 0x22] @ '': null,'' @ [CHR 0x0A]
            @ ''    '' @ [CHR 0x22] @ ''titles'' @ [CHR 0x22] @ '': []'' @ [CHR 0x0A]
            @ ''  }'' @ [CHR 0x0A]
            @ '']'')))]])])),
              (''id'', Val (JNum (Whole 2)))]"
proof -
  have t: "getAccessToken okEnv freshState
             = (Inr (lit ''tok''), snd (getAccessToken okEnv freshState))"
    using okEnv_token(1) by (metis prod.collapse)
  note th = searchUsers_scenario [OF t, where users = sampleUsers]
  have c: "calls (snd (handleRequest okEnv freshState
                  (toolsCallRequest ''searchUsers'' (JObj [(lit ''query'', JStr (lit ''jd''))])
                     (JNum (Whole 2)))))
       = [FetchPost (lit ''https://api.intra.42.fr/oauth/token''),
          FetchGet (lit ''https://api.intra.42.fr/v2/users?filter[login]=jd&page[size]=5'')
                   (lit ''Bearer tok'')]"
    using th [THEN conjunct1] by (simp add: okEnv_token(2) API_BASE_def)
  have r: "fst (handleRequest okEnv freshState
            (toolsCallRequest ''searchUsers'' (JObj [(lit ''query'', JStr (lit ''jd''))])
               (JNum (Whole 2))))
              = Inr [(''jsonrpc'', Val (JStr (lit ''2.0''))),
                     (''result'',
                        Val (JObj [(lit ''content'',
                                      JArr [JObj [(lit ''type'', JStr (lit ''text'')),
                                                  (lit ''text'',
                                                     JStr (JSON_stringify (Number_toString okEnv) sampleUsers))]])])),
                     (''id'', Val (JNum (Whole 2)))]"
    using th [THEN conjunct2, THEN conjunct2] okEnv_api(1,2) by blast
  show ?thesis
    using okEnv_token(1) c r by (simp add: okEnv_api(3) sampleUsers_text)
qed

section \<open>The default cursus of \<open>getCursusLevel\<close>\<close>

lemma templ_21: "templ e (Val (JNum (Whole 21))) = Inr (lit ''21'')"
  by (simp add: templ_def showNumber_def showInt_def digits.simps)

lemma path_getCursusLevel_default:
  assumes "\<not> nullish args" and "\<not> truthy (getProp args ''cursusId'')"
  shows "path_getCursusLevel e args
           = bindE (templ e (getProp args ''userId''))
               (\<lambda>userId. Inr (lit ''/v2/users/'' @ userId
                               @ lit ''/cursus_users?filter[cursus_id]=21''))"
  using assms
  by (cases "templ e (getProp args ''userId'')")
     (simp_all add: path_getCursusLevel_def orElse_def templ_21 bindE_def)

lemma levelText_default:
  assumes "\<not> truthy (getProp args ''cursusId'')"
  shows "levelText e args cursusUsers
           = (if cursusUsers = JNull then Inl TypeError
              else if truthy (getProp (Val cursusUsers) ''length'')
              then (if nullish (index0 (Val cursusUsers)) then Inl TypeError
                    else bindE (templ e (getProp (index0 (Val cursusUsers)) ''level''))
                           (\<lambda>level. Inr (lit ''Level '' @ level @ lit '' in cursus 21'')))
              else Inr (lit ''User not enrolled in this cursus.''))"
  using assms
  by (cases "templ e (getProp (index0 (Val cursusUsers)) ''level'')")
     (simp_all add: levelText_def orElse_def templ_21 bindE_def)

lemma getCursusLevel_dispatch:
  assumes "\<not> nullish body" and "getProp body ''jsonrpc'' = Val (JStr (lit ''2.0''))"
    and "getProp body ''method'' = Val (JStr (lit ''tools/call''))"
    and "getProp (getProp body ''params'') ''name'' = Val (JStr (lit ''getCursusLevel''))"
  shows "dispatch e s (getProp body ''method'') (getProp body ''params'') (getProp body ''id'')
      = call_getCursusLevel e s (getProp (getProp body ''params'') ''arguments'') (getProp body ''id'')"
  using assms(3,4) by (simp add: dispatch_toolsCall toolsCall_def)

lemma getCursusLevel_throws:
  assumes "\<not> nullish body" and "getProp body ''jsonrpc'' = Val (JStr (lit ''2.0''))"
    and "getProp body ''method'' = Val (JStr (lit ''tools/call''))"
    and "getProp (getProp body ''params'') ''name'' = Val (JStr (lit ''getCursusLevel''))"
    and "path_getCursusLevel e (getProp (getProp body ''params'') ''arguments'') = Inl err"
  shows "handleRequest e s body
   = (Inr (error_response (- 32603) ''Internal error'' (getProp body ''id'')),
      s\<lparr>console := console s @ [err]\<rparr>)"
  using assms(5)
  by (simp add: handleRequest_valid [OF assms(1,2)] getCursusLevel_dispatch [OF assms(1-4)]
      call_getCursusLevel_def)

lemma getCursusLevel_handle:
  assumes "\<not> nullish body" and "getProp body ''jsonrpc'' = Val (JStr (lit ''2.0''))"
    and "getProp body ''method'' = Val (JStr (lit ''tools/call''))"
    and "getProp (getProp body ''params'') ''name'' = Val (JStr (lit ''getCursusLevel''))"
    and "path_getCursusLevel e (getProp (getProp body ''params'') ''arguments'') = Inr p"
  shows "handleRequest e s body
   = (case apiRequest e s p of
        (Inl err, s1) \<Rightarrow>
          (Inr (error_response (- 32603) ''Internal error'' (getProp body ''id'')),
           s1\<lparr>console := console s1 @ [err]\<rparr>)
      | (Inr cursusUsers, s1) \<Rightarrow>
          (case levelText e (getProp (getProp body ''params'') ''arguments'') cursusUsers of
             Inl err \<Rightarrow>
               (Inr (error_response (- 32603) ''Internal error'' (getProp body ''id'')),
                s1\<lparr>console := console s1 @ [err]\<rparr>)
           | Inr t \<Rightarrow> (Inr (result_response (text_content t) (getProp body ''id'')), s1)))"
  using assms(5)
  by (simp add: handleRequest_valid [OF assms(1,2)] getCursusLevel_dispatch [OF assms(1-4)]
      call_getCursusLevel_def split: prod.splits sum.splits)

text \<open>
  C10. A valid \<open>tools/call\<close> of \<open>getCursusLevel\<close> whose arguments can be read and whose
  \<open>cursusId\<close> is falsy (absent, \<open>null\<close>, the number 0). When \<open>userId\<close> converts to a string,
  the path is \<open>/v2/users/<userId>/cursus_users?filter[cursus_id]=21\<close>; every call the request
  makes is the POST for a token or the GET of that path, and the GET is made whenever a token is
  there; when the API answers 2xx with a value that has no truthy \<open>length\<close> the result is the
  text \<open>User not enrolled in this cursus.\<close>, and when its first element has a level that
  converts to a string the result is the text \<open>Level <level> in cursus 21\<close>. When \<open>userId\<close> does
  not convert to a string (an object with a key \<open>toString\<close> of its own) the template literal
  throws, no call is made and the response is -32603. So a \<open>cursusId\<close> of 0 never goes
  upstream.
\<close>

theorem getCursusLevel_falsy_cursusId:
  assumes "\<not> nullish body" and "getProp body ''jsonrpc'' = Val (JStr (lit ''2.0''))"
    and "getProp body ''method'' = Val (JStr (lit ''tools/call''))"
    and "getProp (getProp body ''params'') ''name'' = Val (JStr (lit ''getCursusLevel''))"
    and "getProp (getProp body ''params'') ''arguments'' = args"
    and "\<not> nullish args" and "\<not> truthy (getProp args ''cursusId'')"
  shows "(\<forall>userId. templ e (getProp args ''userId'') = Inr userId \<longrightarrow>
            path_getCursusLevel e args
              = Inr (lit ''/v2/users/'' @ userId @ lit ''/cursus_users?filter[cursus_id]=21'')
            \<and> (\<forall>c \<in> set (newCalls s (snd (handleRequest e s body))).
                  c = FetchPost (API_BASE @ lit ''/oauth/token'')
                  \<or> (\<exists>auth. c = FetchGet (API_BASE @ lit ''/v2/users/'' @ userId
                                            @ lit ''/cursus_users?filter[cursus_id]=21'') auth))
            \<and> (\<forall>token s1. getAccessToken e s = (Inr token, s1) \<longrightarrow>
                  calls (snd (handleRequest e s body))
                    = calls s1 @ [FetchGet (API_BASE @ lit ''/v2/users/'' @ userId
                                            @ lit ''/cursus_users?filter[cursus_id]=21'')
                                    (lit ''Bearer '' @ token)]
                  \<and> (\<forall>cursusUsers.
                        res_ok (api_endpoint e (calls s1)
                                  (API_BASE @ lit ''/v2/users/'' @ userId
                                   @ lit ''/cursus_users?filter[cursus_id]=21'')
                                  (lit ''Bearer '' @ token))
                        \<and> res_json (api_endpoint e (calls s1)
                                  (API_BASE @ lit ''/v2/users/'' @ userId
                                   @ lit ''/cursus_users?filter[cursus_id]=21'')
                                  (lit ''Bearer '' @ token)) = Some cursusUsers
                        \<and> cursusUsers \<noteq> JNull \<longrightarrow>
                        (\<not> truthy (getProp (Val cursusUsers) ''length'') \<longrightarrow>
                           fst (handleRequest e s body)
                             = Inr [(''jsonrpc'', Val (JStr (lit ''2.0''))),
                                    (''result'',
                                       Val (JObj [(lit ''content'',
                                          JArr [JObj [(lit ''type'', JStr (lit ''text'')),
                                                      (lit ''text'',
                                                         JStr (lit ''User not enrolled in this cursus.''))]])])),
                                    (''id'', getProp body ''id'')])
                        \<and> (\<forall>level. truthy (getProp (Val cursusUsers) ''length'')
                               \<and> \<not> nullish (index0 (Val cursusUsers))
                               \<and> templ e (getProp (index0 (Val cursusUsers)) ''level'') = Inr level \<longrightarrow>
                           fst (handleRequest e s body)
                             = Inr [(''jsonrpc'', Val (JStr (lit ''2.0''))),
                                    (''result'',
                                       Val (JObj [(lit ''content'',
                                          JArr [JObj [(lit ''type'', JStr (lit ''text'')),
                                                      (lit ''text'',
                                                         JStr (lit ''Level '' @ level
                                                               @ lit '' in cursus 21''))]])])),
                                    (''id'', getProp body ''id'')]))))
       \<and> (\<forall>err. templ e (getProp args ''userId'') = Inl err \<longrightarrow>
            handleRequest e s body
              = ((Inr [(''jsonrpc'', Val (JStr (lit ''2.0''))),
                       (''error'', Val (JObj [(lit ''code'', JNum (Whole (- 32603))),
                                              (lit ''message'', JStr (lit ''Internal error''))])),
                       (''id'', getProp body ''id'')]),
                 s\<lparr>console := console s @ [err]\<rparr>))"
proof (intro conjI allI impI ballI)
  fix userId
  assume u: "templ e (getProp args ''userId'') = Inr userId"
  let ?p = "lit ''/v2/users/'' @ userId @ lit ''/cursus_users?filter[cursus_id]=21''"
  show p: "path_getCursusLevel e args = Inr ?p"
    using path_getCursusLevel_default [OF assms(6,7), of e] u by (simp add: bindE_def)
  note h = getCursusLevel_handle [OF assms(1-4), of e ?p s, unfolded assms(5), OF p]
  have cs: "calls (snd (handleRequest e s body)) = calls (snd (apiRequest e s ?p))"
    by (cases "apiRequest e s ?p") (auto simp: h split: sum.splits)
  {
    fix c
    assume "c \<in> set (newCalls s (snd (handleRequest e s body)))"
    then show "c = FetchPost (API_BASE @ lit ''/oauth/token'')
               \<or> (\<exists>auth. c = FetchGet (API_BASE @ ?p) auth)"
      using apiRequest_newCalls [of s e ?p] cs by (simp add: newCalls_def)
  }
  fix token s1
  assume t: "getAccessToken e s = (Inr token, s1)"
  show "calls (snd (handleRequest e s body))
          = calls s1 @ [FetchGet (API_BASE @ ?p) (lit ''Bearer '' @ token)]"
    using apiRequest_token(1) [OF t, of ?p] cs by simp
  fix cursusUsers
  assume a: "res_ok (api_endpoint e (calls s1) (API_BASE @ ?p) (lit ''Bearer '' @ token))
             \<and> res_json (api_endpoint e (calls s1) (API_BASE @ ?p) (lit ''Bearer '' @ token))
                 = Some cursusUsers
             \<and> cursusUsers \<noteq> JNull"
  then have ap: "fst (apiRequest e s ?p) = Inr cursusUsers"
    using apiRequest_token(2) [OF t, of ?p cursusUsers] by simp
  have r: "fst (handleRequest e s body)
             = (case levelText e args cursusUsers of
                  Inl err \<Rightarrow> Inr (error_response (- 32603) ''Internal error'' (getProp body ''id''))
                | Inr t \<Rightarrow> Inr (result_response (text_content t) (getProp body ''id'')))"
    using ap by (cases "apiRequest e s ?p") (simp add: h split: sum.splits)
  {
    assume "\<not> truthy (getProp (Val cursusUsers) ''length'')"
    with a show "fst (handleRequest e s body)
        = Inr [(''jsonrpc'', Val (JStr (lit ''2.0''))),
               (''result'',
                  Val (JObj [(lit ''content'',
                     JArr [JObj [(lit ''type'', JStr (lit ''text'')),
                                 (lit ''text'', JStr (lit ''User not enrolled in this cursus.''))]])])),
               (''id'', getProp body ''id'')]"
      by (simp add: r levelText_default [OF assms(7)] result_response_def text_content_def)
  }
  fix level
  assume "truthy (getProp (Val cursusUsers) ''length'')
          \<and> \<not> nullish (index0 (Val cursusUsers))
          \<and> templ e (getProp (index0 (Val cursusUsers)) ''level'') = Inr level"
  with a show "fst (handleRequest e s body)
        = Inr [(''jsonrpc'', Val (JStr (lit ''2.0''))),
               (''result'',
                  Val (JObj [(lit ''content'',
                     JArr [JObj [(lit ''type'', JStr (lit ''text'')),
                                 (lit ''text'', JStr (lit ''Level '' @ level @ lit '' in cursus 21''))]])])),
               (''id'', getProp body ''id'')]"
    by (simp add: r levelText_default [OF assms(7)] result_response_def text_content_def bindE_def)
next
  fix err
  assume u: "templ e (getProp args ''userId'') = Inl err"
  have p: "path_getCursusLevel e args = Inl err"
    using path_getCursusLevel_default [OF assms(6,7), of e] u by (simp add: bindE_def)
  show "handleRequest e s body
          = ((Inr [(''jsonrpc'', Val (JStr (lit ''2.0''))),
                   (''error'', Val (JObj [(lit ''code'', JNum (Whole (- 32603))),
                                          (lit ''message'', JStr (lit ''Internal error''))])),
                   (''id'', getProp body ''id'')]),
             s\<lparr>console := console s @ [err]\<rparr>)"
    using getCursusLevel_throws [OF assms(1-4), of e err s, unfolded assms(5), OF p]
    by (simp add: error_response_def)
qed

text \<open>
  \<open>{"userId": 7, "cursusId": 0}\<close> with both endpoints answering 200 and a level of 4.21, then
  \<open>{"userId": {"toString": null}, "cursusId": 0}\<close>.
\<close>

theorem getCursusLevel_falsy_cursusId_witness:
  "\<not> nullish (toolsCallRequest ''getCursusLevel''
                (JObj [(lit ''userId'', JNum (Whole 7)), (lit ''cursusId'', JNum (Whole 0))])
                (JNum (Whole 2)))
   \<and> \<not> truthy (getProp (Val (JObj [(lit ''userId'', JNum (Whole 7)),
                                    (lit ''cursusId'', JNum (Whole 0))])) ''cursusId'')
   \<and> templ okEnv (getProp (Val (JObj [(lit ''userId'', JNum (Whole 7)),
                                      (lit ''cursusId'', JNum (Whole 0))])) ''userId'')
       = Inr (lit ''7'')
   \<and> path_getCursusLevel okEnv
        (Val (JObj [(lit ''userId'', JNum (Whole 7)), (lit ''cursusId'', JNum (Whole 0))]))
       = Inr (lit ''/v2/users/7/cursus_users?filter[cursus_id]=21'')
   \<and> calls (snd (handleRequest okEnv freshState
        (toolsCallRequest ''getCursusLevel''
           (JObj [(lit ''userId'', JNum (Whole 7)), (lit ''cursusId'', JNum (Whole 0))])
           (JNum (Whole 2)))))
       = [FetchPost (lit ''https://api.intra.42.fr/oauth/token''),
          FetchGet (lit ''https://api.intra.42.fr/v2/users/7/cursus_users?filter[cursus_id]=21'')
                   (lit ''Bearer tok'')]
   \<and> fst (handleRequest okEnv freshState
        (toolsCallRequest ''getCursusLevel''
           (JObj [(lit ''userId'', JNum (Whole 7)), (lit ''cursusId'', JNum (Whole 0))])
           (JNum (Whole 2))))
       = Inr [(''jsonrpc'', Val (JStr (lit ''2.0''))),
              (''result'',
                 Val (JObj [(lit ''content'',
                    JArr [JObj [(lit ''type'', JStr (lit ''text'')),
                                (lit ''text'', JStr (lit ''Level 4.21 in cursus 21''))]])])),
              (''id'', Val (JNum (Whole 2)))]
   \<and> templ okEnv (getProp (Val (JObj [(lit ''userId'', JObj [(lit ''toString'', JNull)]),
                                      (lit ''cursusId'', JNum (Whole 0))])) ''userId'')
       = Inl TypeError
   \<and> handleRequest okEnv freshState
        (toolsCallRequest ''getCursusLevel''
           (JObj [(lit ''userId'', JObj [(lit ''toString'', JNull)]),
                  (lit ''cursusId'', JNum (Whole 0))])
           (JNum (Whole 2)))
       = (Inr [(''jsonrpc'', Val (JStr (lit ''2.0''))),
               (''error'', Val (JObj [(lit ''code'', JNum (Whole (- 32603))),
                                      (lit ''message'', JStr (lit ''Internal error''))])),
               (''id'', Val (JNum (Whole 2)))],
          freshState\<lparr>console := console freshState @ [TypeError]\<rparr>)"
proof -
  let ?args = "Val (JObj [(lit ''userId'', JNum (Whole 7)), (lit ''cursusId'', JNum (Whole 0))])"
  let ?req = "toolsCallRequest ''getCursusLevel''
                (JObj [(lit ''userId'', JNum (Whole 7)), (lit ''cursusId'', JNum (Whole 0))])
                (JNum (Whole 2))"
  let ?bad = "Val (JObj [(lit ''userId'', JObj [(lit ''toString'', JNull)]),
                         (lit ''cursusId'', JNum (Whole 0))])"
  let ?breq = "toolsCallRequest ''getCursusLevel''
                 (JObj [(lit ''userId'', JObj [(lit ''toString'', JNull)]),
                        (lit ''cursusId'', JNum (Whole 0))])
                 (JNum (Whole 2))"
  have h: "\<not> nullish ?req" "getProp ?req ''jsonrpc'' = Val (JStr (lit ''2.0''))"
    "getProp ?req ''method'' = Val (JStr (lit ''tools/call''))"
    "getProp (getProp ?req ''params'') ''name'' = Val (JStr (lit ''getCursusLevel''))"
    "getProp (getProp ?req ''params'') ''arguments'' = ?args"
    "\<not> nullish ?args" "\<not> truthy (getProp ?args ''cursusId'')"
    by (simp_all add: toolsCallRequest_def envelope_def)
  have hb: "\<not> nullish ?breq" "getProp ?breq ''jsonrpc'' = Val (JStr (lit ''2.0''))"
    "getProp ?breq ''method'' = Val (JStr (lit ''tools/call''))"
    "getProp (getProp ?breq ''params'') ''name'' = Val (JStr (lit ''getCursusLevel''))"
    "getProp (getProp ?breq ''params'') ''arguments'' = ?bad"
    "\<not> nullish ?bad" "\<not> truthy (getProp ?bad ''cursusId'')"
    by (simp_all add: toolsCallRequest_def envelope_def)
  have i: "getProp ?req ''id'' = Val (JNum (Whole 2))" "getProp ?breq ''id'' = Val (JNum (Whole 2))"
    by (simp_all add: toolsCallRequest_def envelope_def)
  have u: "templ okEnv (getProp ?args ''userId'') = Inr (lit ''7'')"
    by (simp add: templ_def showNumber_def showInt_def digits.simps)
  have ub: "templ okEnv (getProp ?bad ''userId'') = Inl TypeError"
    by (simp add: templ_def)
  have t: "getAccessToken okEnv freshState
             = (Inr (lit ''tok''), snd (getAccessToken okEnv freshState))"
    using okEnv_token(1) by (metis prod.collapse)
  have l: "sampleUsers \<noteq> JNull" "truthy (getProp (Val sampleUsers) ''length'')"
    "\<not> nullish (index0 (Val sampleUsers))"
    "templ okEnv (getProp (index0 (Val sampleUsers)) ''level'') = Inr (lit ''4.21'')"
    by (simp_all add: sampleUsers_def templ_def okEnv_api(3) showNumber_def sampleDigits_def)
  note th = getCursusLevel_falsy_cursusId [OF h, of okEnv freshState, THEN conjunct1, rule_format, OF u]
  note p = th [THEN conjunct1]
  note run = th [THEN conjunct2, THEN conjunct2, rule_format, OF t]
  have c: "calls (snd (handleRequest okEnv freshState ?req))
       = [FetchPost (lit ''https://api.intra.42.fr/oauth/token''),
          FetchGet (lit ''https://api.intra.42.fr/v2/users/7/cursus_users?filter[cursus_id]=21'')
                   (lit ''Bearer tok'')]"
    using run [THEN conjunct1] by (simp add: okEnv_token(2) API_BASE_def)
  have r: "fst (handleRequest okEnv freshState ?req)
       = Inr [(''jsonrpc'', Val (JStr (lit ''2.0''))),
              (''result'',
                 Val (JObj [(lit ''content'',
                    JArr [JObj [(lit ''type'', JStr (lit ''text'')),
                                (lit ''text'', JStr (lit ''Level 4.21 in cursus 21''))]])])),
              (''id'', Val (JNum (Whole 2)))]"
    using run [THEN conjunct2, rule_format, of sampleUsers, THEN conjunct2, rule_format,
               of "lit ''4.21''"] okEnv_api(1,2) l
    by (simp add: i)
  have b: "handleRequest okEnv freshState ?breq
       = (Inr [(''jsonrpc'', Val (JStr (lit ''2.0''))),
               (''error'', Val (JObj [(lit ''code'', JNum (Whole (- 32603))),
                                      (lit ''message'', JStr (lit ''Internal error''))])),
               (''id'', Val (JNum (Whole 2)))],
          freshState\<lparr>console := console freshState @ [TypeError]\<rparr>)"
    using getCursusLevel_falsy_cursusId [OF hb, of okEnv freshState, THEN conjunct2, rule_format, OF ub]
    by (simp add: i)
  from h(1,7) u p c r ub b show ?thesis by simp
qed

section \<open>What \<open>tools/list\<close> advertises and what \<open>tools/call\<close> does\<close>

text \<open>
  The names advertised by \<open>tools/list\<close> are the thirteen names of the inner switch, in its
  order, and a name is accepted by \<open>tools/call\<close> (not answered -32601) exactly when it is
  advertised.
\<close>

lemma encodeUnits_j: "encodeUnits (lit ''j'') = Inr (lit ''j'')"
  by (simp add: lit_def unreserved_def bindE_def)

lemma advertisedNames_eq: "advertisedNames = map (\<lambda>n. Val (JStr (lit n))) toolNames"
  by (simp add: advertisedNames_def advertisedTools_def tools_list_result_def toolEntry_def
      toolNames_def)

lemma toolsCall_registered_shape:
  assumes "n \<in> set toolNames" and "toolsCall e s (Val (JStr (lit n))) a i = (Inr r, s1)"
  shows "\<exists>res. r = result_response res i"
  using assms unfolding toolsCall_def toolNames_def
  by (auto split: if_splits dest: callTool_shape call_getCursusLevel_shape)

lemma toolsCall_unregistered:
  assumes "\<forall>n \<in> set toolNames. name \<noteq> Val (JStr (lit n))"
  shows "toolsCall e s name args i = (Inr (error_response (- 32601) ''Method not found'' i), s)"
  using assms by (simp add: toolsCall_def toolNames_def)

lemma result_not_error [simp]:
  "result_response a i \<noteq> error_response c m j" "error_response c m j \<noteq> result_response a i"
  by (simp_all add: result_response_def error_response_def)

lemma toolsCall_accepts_iff:
  "name \<in> set advertisedNames
   \<longleftrightarrow> (\<forall>e s args i. fst (toolsCall e s name args i)
                        \<noteq> Inr (error_response (- 32601) ''Method not found'' i))"
proof
  assume "name \<in> set advertisedNames"
  then obtain n where n: "n \<in> set toolNames" "name = Val (JStr (lit n))"
    by (auto simp: advertisedNames_eq)
  show "\<forall>e s args i. fst (toolsCall e s name args i)
                        \<noteq> Inr (error_response (- 32601) ''Method not found'' i)"
  proof (intro allI notI)
    fix e s args i
    assume a: "fst (toolsCall e s name args i) = Inr (error_response (- 32601) ''Method not found'' i)"
    then obtain s1 where "toolsCall e s (Val (JStr (lit n))) args i
        = (Inr (error_response (- 32601) ''Method not found'' i), s1)"
      using n(2) by (cases "toolsCall e s name args i") auto
    from toolsCall_registered_shape [OF n(1) this] show False by simp
  qed
next
  assume a: "\<forall>e s args i. fst (toolsCall e s name args i)
                        \<noteq> Inr (error_response (- 32601) ''Method not found'' i)"
  show "name \<in> set advertisedNames"
  proof (rule ccontr)
    assume "name \<notin> set advertisedNames"
    then have "\<forall>n \<in> set toolNames. name \<noteq> Val (JStr (lit n))"
      by (auto simp: advertisedNames_eq)
    from toolsCall_unregistered [OF this, of okEnv freshState Undefined Undefined] a
    show False by (metis fst_conv)
  qed
qed

text \<open>
  C6. What \<open>tools/list\<close> advertises for a tool is to be what \<open>tools/call\<close> enforces on its
  arguments. \<open>tools/list\<close> advertises \<open>minLength: 2\<close> for the \<open>query\<close> of \<open>searchUsers\<close>, as the
  schema of the registered tool has it; the manual dispatcher checks nothing: for the request
  \<open>{"jsonrpc":"2.0","method":"tools/call","params":{"name":"searchUsers",
  "arguments":{"query":"j"}},"id":1}\<close>, whose query has length 1, the GET is made with
  \<open>filter[login]=j\<close> and its answer is returned as the result.
\<close>

theorem one_character_query_is_accepted:
  "getProp (getProp (getProp (advertisedSchema ''searchUsers'') ''properties'') ''query'') ''minLength''
     = Val (JNum (Whole 2))
   \<and> length (lit ''j'') < 2
   \<and> fst (handleRequest okEnv freshState
            (toolsCallRequest ''searchUsers'' (JObj [(lit ''query'', JStr (lit ''j''))])
               (JNum (Whole 1))))
       = Inr [(''jsonrpc'', Val (JStr (lit ''2.0''))),
              (''result'',
                 Val (JObj [(lit ''content'',
                    JArr [JObj [(lit ''type'', JStr (lit ''text'')),
                                (lit ''text'',
                                   JStr (lit (''['' @ [CHR 0x0A]
            @ ''  {'' @ [CHR 0x0A]
            @ ''    '' @ [CHR 0x22] @ ''id'' @ [CHR 0x22] @ '': 7,'' @ [CHR 0x0A]
            @ ''    '' @ [CHR 0x22] @ ''login'' @ [CHR 0x22] @ '': '' @ [CHR 0x22] @ ''jdoe''
                       @ [CHR 0x22] @ '','' @ [CHR 0x0A]
            @ ''    '' @ [CHR 0x22] @ ''level'' @ [CHR 0x22] @ '': 4.21,'' @ [CHR 0x0A]
            @ ''    '' @ [CHR 0x22] @ ''staff?'' @ [CHR 0x22] @ '': false,'' @ [CHR 0x0A]
            @ ''    '' @ [CHR 0x22] @ ''image'' @ [CHR 0x22] @ '': null,'' @ [CHR 0x0A]
            @ ''    '' @ [CHR 0x22] @ ''titles'' @ [CHR 0x22] @ '': []'' @ [CHR 0x0A]
            @ ''  }'' @ [CHR 0x0A]
            @ '']'')))]])])),
              (''id'', Val (JNum (Whole 1)))]
   \<and> calls (snd (handleRequest okEnv freshState
                  (toolsCallRequest ''searchUsers'' (JObj [(lit ''query'', JStr (lit ''j''))])
                     (JNum (Whole 1)))))
       = [FetchPost (lit ''https://api.intra.42.fr/oauth/token''),
          FetchGet (lit ''https://api.intra.42.fr/v2/users?filter[login]=j&page[size]=5'')
                   (lit ''Bearer tok'')]"
proof -
  have m: "getProp (getProp (getProp (advertisedSchema ''searchUsers'') ''properties'') ''query'')
             ''minLength'' = Val (JNum (Whole 2))"
    by (simp add: advertisedSchema_def advertisedTools_def tools_list_result_def toolEntry_def)
  have n: "length (lit ''j'') < 2"
    by (simp add: lit_def)
  have t: "getAccessToken okEnv freshState
             = (Inr (lit ''tok''), snd (getAccessToken okEnv freshState))"
    using okEnv_token(1) by (metis prod.collapse)
  have r: "fst (handleRequest okEnv freshState
            (toolsCallRequest ''searchUsers'' (JObj [(lit ''query'', JStr (lit ''j''))])
               (JNum (Whole 1))))
       = Inr (result_response (text_content (JSON_stringify sampleDigits sampleUsers))
                (Val (JNum (Whole 1))))"
    using searchUsers_result [OF encodeUnits_j t, of sampleUsers "JNum (Whole 1)"] okEnv_api
    by simp
  have c: "calls (snd (handleRequest okEnv freshState
                  (toolsCallRequest ''searchUsers'' (JObj [(lit ''query'', JStr (lit ''j''))])
                     (JNum (Whole 1)))))
       = [FetchPost (lit ''https://api.intra.42.fr/oauth/token''),
          FetchGet (lit ''https://api.intra.42.fr/v2/users?filter[login]=j&page[size]=5'')
                   (lit ''Bearer tok'')]"
    using searchUsers_calls [OF encodeUnits_j t, of "JNum (Whole 1)"]
    by (simp add: okEnv_token(2) API_BASE_def)
  from m n r c show ?thesis
    by (simp add: sampleUsers_text result_response_def text_content_def)
qed

end
